theory Spec2Isabelle
  imports Main "HOL-Library.Word"
begin

section \<open>Barcode/QR Code Generator API (api\_generator.py)\<close>

text \<open>
  The module declares two request models, two helper functions that drive the imaging
  libraries inside a \<^verbatim>\<open>try\<close> block, and two POST endpoints that wrap the helpers' byte
  buffer in a streaming response. The imaging libraries (\<^verbatim>\<open>qrcode\<close>, \<^verbatim>\<open>barcode\<close>) are not
  part of the module: every call into them is a field of a library record, a function
  that either raises or returns. Each such call is also appended to a log, so that
  ``no encoding attempt was made'' is the statement that the log is empty.
\<close>

subsection \<open>Exceptions\<close>

text \<open>
  The three classes of exception the handlers of the module tell apart. \<^verbatim>\<open>HTTPException\<close>
  is a subclass of \<^verbatim>\<open>Exception\<close> and not of \<^verbatim>\<open>BarcodeError\<close>, so a clause
  \<^verbatim>\<open>except Exception\<close> catches it, and \<^verbatim>\<open>except barcode.errors.BarcodeError\<close> does not.
\<close>

datatype exn =
    BarcodeError string
  | HTTPException nat string
  | Exception string

text \<open>
  \<^verbatim>\<open>str(e)\<close>, which the f-strings of the handlers interpolate. \<open>BarcodeError\<close> and
  \<open>Exception\<close> carry their message. The text of an \<^verbatim>\<open>HTTPException\<close> is the framework's
  (it differs between releases), so it is the parameter \<open>http_str\<close>.
\<close>

definition str :: "(nat \<Rightarrow> string \<Rightarrow> string) \<Rightarrow> exn \<Rightarrow> string" where
  "str http_str e =
     (case e of
        BarcodeError m \<Rightarrow> m
      | HTTPException status_code detail \<Rightarrow> http_str status_code detail
      | Exception m \<Rightarrow> m)"

abbreviation HTTP_200_OK :: nat where
  "HTTP_200_OK \<equiv> 200"

abbreviation HTTP_400_BAD_REQUEST :: nat where
  "HTTP_400_BAD_REQUEST \<equiv> 400"

abbreviation HTTP_422_UNPROCESSABLE_ENTITY :: nat where
  "HTTP_422_UNPROCESSABLE_ENTITY \<equiv> 422"

abbreviation HTTP_500_INTERNAL_SERVER_ERROR :: nat where
  "HTTP_500_INTERNAL_SERVER_ERROR \<equiv> 500"

subsection \<open>Values\<close>

type_synonym bytes = "8 word list"

text \<open>A JSON value, for the free-form \<^verbatim>\<open>options: dict\<close> of a barcode request.\<close>

datatype json =
    JNull
  | JBool bool
  | JNumber int
  | JString string
  | JArray "json list"
  | JObject "(string \<times> json) list"

type_synonym options = "(string \<times> json) list"

definition squote :: string where
  "squote = [CHR 0x27]"

definition dquote :: string where
  "dquote = [CHR 0x22]"

text \<open>
  A \<open>string\<close> is a list of 8-bit characters: text whose characters all lie in the latin-1
  range. That is all the module needs of the data, the colours, the barcode type and the
  messages, which it hands to a library or to a JSON body. The file name is different: the
  module puts it into a response header, which must be encoded as latin-1, so a file name
  is a Python \<^verbatim>\<open>str\<close> in full, the list of its code points.
\<close>

type_synonym unicode = "nat list"

definition unicode_of :: "string \<Rightarrow> unicode" where
  "unicode_of s = map of_char s"

text \<open>Whether \<^verbatim>\<open>s.encode("latin-1")\<close> returns: every code point is below 256.\<close>

definition latin1_encodable :: "unicode \<Rightarrow> bool" where
  "latin1_encodable s = list_all (\<lambda>c. c < 256) s"

text \<open>\<^verbatim>\<open>sep.join(xs)\<close>.\<close>

fun join :: "string \<Rightarrow> string list \<Rightarrow> string" where
  "join sep [] = []"
| "join sep [x] = x"
| "join sep (x # y # ys) = x @ sep @ join sep (y # ys)"

subsection \<open>io.BytesIO\<close>

record BytesIO =
  buffer :: bytes
  pos :: nat

definition BytesIO_new :: BytesIO where
  "BytesIO_new = \<lparr>buffer = [], pos = 0\<rparr>"

text \<open>
  Writing at the position overwrites and extends; a position past the end pads with zeros.
  Writing no bytes changes nothing.
\<close>

definition BytesIO_write :: "BytesIO \<Rightarrow> bytes \<Rightarrow> BytesIO" where
  "BytesIO_write b d =
     (if d = [] then b
      else \<lparr>buffer = take (pos b) (buffer b) @ replicate (pos b - length (buffer b)) 0 @ d
                     @ drop (pos b + length d) (buffer b),
            pos = pos b + length d\<rparr>)"

definition seek :: "BytesIO \<Rightarrow> nat \<Rightarrow> BytesIO" where
  "seek b n = b\<lparr>pos := n\<rparr>"

text \<open>Reading to the end, as the streaming response does: the bytes from the position on.\<close>

definition read_all :: "BytesIO \<Rightarrow> bytes" where
  "read_all b = drop (pos b) (buffer b)"

subsection \<open>Library calls and their log\<close>

datatype error_correction = ERROR_CORRECT_L | ERROR_CORRECT_M | ERROR_CORRECT_Q | ERROR_CORRECT_H

text \<open>One entry per call into an imaging library, with the arguments taken from the request.\<close>

datatype lib_call =
    Call_QRCode int error_correction int int
  | Call_add_data string
  | Call_make bool
  | Call_make_image string string
  | Call_save string
  | Call_barcode_get string
  | Call_barcode_class string
  | Call_barcode_write options

text \<open>
  The \<^verbatim>\<open>qrcode\<close> library as the module uses it: the constructor
  \<^verbatim>\<open>QRCode(version, error_correction, box_size, border)\<close>, \<^verbatim>\<open>add_data(data)\<close>,
  \<^verbatim>\<open>make(fit)\<close>, \<^verbatim>\<open>make_image(fill_color, back_color)\<close> and the image's
  \<^verbatim>\<open>save(buffer, format)\<close>, which yields the bytes it writes. The methods that mutate the
  \<^verbatim>\<open>QRCode\<close> object return its new state (\<open>qr_make\<close> is the method \<^verbatim>\<open>make\<close>).
\<close>

record ('qr, 'img) qrcode_lib =
  QRCode :: "int \<Rightarrow> error_correction \<Rightarrow> int \<Rightarrow> int \<Rightarrow> exn + 'qr"
  add_data :: "'qr \<Rightarrow> string \<Rightarrow> exn + 'qr"
  qr_make :: "'qr \<Rightarrow> bool \<Rightarrow> exn + 'qr"
  make_image :: "'qr \<Rightarrow> string \<Rightarrow> string \<Rightarrow> exn + 'img"
  save :: "'img \<Rightarrow> string \<Rightarrow> exn + bytes"

text \<open>
  The \<^verbatim>\<open>barcode\<close> library: \<^verbatim>\<open>barcode.get(name, writer=ImageWriter())\<close> yields a barcode
  class, the class applied to the data yields an instance, and the instance's
  \<^verbatim>\<open>write(buffer, options)\<close> yields the bytes it writes.
\<close>

record ('cls, 'bc) barcode_lib =
  barcode_get :: "string \<Rightarrow> exn + 'cls"
  barcode_class :: "'cls \<Rightarrow> string \<Rightarrow> exn + 'bc"
  barcode_write :: "'bc \<Rightarrow> options \<Rightarrow> exn + bytes"

text \<open>
  A computation takes the log so far and returns the log extended, with either the
  exception raised or the value returned.
\<close>

type_synonym 'a action = "lib_call list \<Rightarrow> (exn + 'a) \<times> lib_call list"

definition return_val :: "'a \<Rightarrow> 'a action" where
  "return_val x log = (Inr x, log)"

definition raise :: "exn \<Rightarrow> 'a action" where
  "raise e log = (Inl e, log)"

definition bind :: "'a action \<Rightarrow> ('a \<Rightarrow> 'b action) \<Rightarrow> 'b action" where
  "bind m f log = (case m log of (Inl e, log') \<Rightarrow> (Inl e, log') | (Inr x, log') \<Rightarrow> f x log')"

text \<open>\<^verbatim>\<open>try: m except Exception as e: handler(e)\<close>.\<close>

definition try_except :: "'a action \<Rightarrow> (exn \<Rightarrow> 'a action) \<Rightarrow> 'a action" where
  "try_except m handler log =
     (case m log of (Inl e, log') \<Rightarrow> handler e log' | (Inr x, log') \<Rightarrow> (Inr x, log'))"

text \<open>A call into a library: logged, then raising or returning what the library does.\<close>

definition call :: "lib_call \<Rightarrow> exn + 'a \<Rightarrow> 'a action" where
  "call c result log = (result, log @ [c])"

subsection \<open>Responses\<close>

datatype validation_constraint = Required | Ge int | Le int

text \<open>A validation error: the name of the field and the declared constraint it violates.\<close>

type_synonym validation_error = "string \<times> validation_constraint"

datatype content =
    Image bytes
  | Detail string
  | Validation_errors "validation_error list"
  | Plain_text string

record response =
  status_code :: nat
  media_type :: string
  headers :: "(string \<times> unicode) list"
  body :: content

text \<open>
  \<^verbatim>\<open>StreamingResponse(content, media_type, headers)\<close>: status 200 by default, the body
  what reading the buffer from its position yields. The constructor encodes every header
  value as latin-1 and raises \<^verbatim>\<open>UnicodeEncodeError\<close> when one has a character outside that
  range. (The exception stands for its class here: no handler of the module sees it, so
  its message is never read.)
\<close>

definition StreamingResponse ::
  "BytesIO \<Rightarrow> string \<Rightarrow> (string \<times> unicode) list \<Rightarrow> exn + response" where
  "StreamingResponse b mt hs =
     (if list_all (\<lambda>h. latin1_encodable (snd h)) hs
      then Inr \<lparr>status_code = HTTP_200_OK, media_type = mt, headers = hs,
                body = Image (read_all b)\<rparr>
      else Inl (Exception ''UnicodeEncodeError''))"

subsection \<open>Helper functions\<close>

text \<open>
  The body of the \<^verbatim>\<open>try\<close> block of \<^verbatim>\<open>_generate_qr_code_image_bytes\<close>: five library
  calls, then the buffer rewound.
\<close>

definition qr_try_body ::
  "('qr, 'img) qrcode_lib \<Rightarrow> string \<Rightarrow> string \<Rightarrow> string \<Rightarrow> int \<Rightarrow> int \<Rightarrow> int \<Rightarrow> BytesIO action" where
  "qr_try_body lib data fill_color back_color version box_size border =
     bind (call (Call_QRCode version ERROR_CORRECT_H box_size border)
             (QRCode lib version ERROR_CORRECT_H box_size border)) (\<lambda>qr.
     bind (call (Call_add_data data) (add_data lib qr data)) (\<lambda>qr.
     bind (call (Call_make True) (qr_make lib qr True)) (\<lambda>qr.
     bind (call (Call_make_image fill_color back_color)
             (make_image lib qr fill_color back_color)) (\<lambda>img.
     bind (call (Call_save ''PNG'') (save lib img ''PNG'')) (\<lambda>written.
     return_val (seek (BytesIO_write BytesIO_new written) 0))))))"

text \<open>Its only handler, \<^verbatim>\<open>except Exception as e\<close>.\<close>

definition qr_except :: "(nat \<Rightarrow> string \<Rightarrow> string) \<Rightarrow> exn \<Rightarrow> BytesIO action" where
  "qr_except http_str e =
     raise (HTTPException HTTP_500_INTERNAL_SERVER_ERROR
              (''Failed to generate QR Code: '' @ str http_str e))"

definition generate_qr_code_image_bytes ::
  "('qr, 'img) qrcode_lib \<Rightarrow> (nat \<Rightarrow> string \<Rightarrow> string) \<Rightarrow>
   string \<Rightarrow> string \<Rightarrow> string \<Rightarrow> int \<Rightarrow> int \<Rightarrow> int \<Rightarrow> BytesIO action" where
  "generate_qr_code_image_bytes lib http_str data fill_color back_color version box_size border =
     try_except (qr_try_body lib data fill_color back_color version box_size border)
       (qr_except http_str)"

definition supported_barcode_types :: "string list" where
  "supported_barcode_types =
     [''ean8'', ''ean13'', ''upca'', ''jan'', ''isbn10'', ''isbn13'', ''issn'',
      ''code39'', ''code128'', ''pzn'', ''gs1'']"

text \<open>
  The body of the \<^verbatim>\<open>try\<close> block of \<^verbatim>\<open>_generate_barcode_image_bytes\<close>: the membership
  test and its \<^verbatim>\<open>raise\<close> stand inside the block, before the three library calls.
\<close>

definition barcode_try_body ::
  "('cls, 'bc) barcode_lib \<Rightarrow> string \<Rightarrow> string \<Rightarrow> options \<Rightarrow> BytesIO action" where
  "barcode_try_body lib barcode_type data options =
     (if barcode_type \<notin> set supported_barcode_types
      then raise (HTTPException HTTP_400_BAD_REQUEST
                    (''Unsupported barcode type: '' @ squote @ barcode_type @ squote
                     @ ''. Supported types: '' @ join '', '' supported_barcode_types))
      else
        bind (call (Call_barcode_get barcode_type) (barcode_get lib barcode_type)) (\<lambda>cls.
        bind (call (Call_barcode_class data) (barcode_class lib cls data)) (\<lambda>barcode_instance.
        bind (call (Call_barcode_write options) (barcode_write lib barcode_instance options))
          (\<lambda>written.
        return_val (seek (BytesIO_write BytesIO_new written) 0)))))"

text \<open>
  The two handlers, in the order of the source: \<^verbatim>\<open>except barcode.errors.BarcodeError\<close>
  first, \<^verbatim>\<open>except Exception\<close> for everything else.
\<close>

definition barcode_except :: "(nat \<Rightarrow> string \<Rightarrow> string) \<Rightarrow> string \<Rightarrow> exn \<Rightarrow> BytesIO action" where
  "barcode_except http_str barcode_type e =
     (case e of
        BarcodeError m \<Rightarrow>
          raise (HTTPException HTTP_400_BAD_REQUEST
                   (''Invalid data for barcode type '' @ squote @ barcode_type @ squote @ '': ''
                    @ str http_str e @ ''. Please check data format and length.''))
      | _ \<Rightarrow>
          raise (HTTPException HTTP_500_INTERNAL_SERVER_ERROR
                   (''Failed to generate barcode: '' @ str http_str e)))"

definition generate_barcode_image_bytes ::
  "('cls, 'bc) barcode_lib \<Rightarrow> (nat \<Rightarrow> string \<Rightarrow> string) \<Rightarrow>
   string \<Rightarrow> string \<Rightarrow> options \<Rightarrow> BytesIO action" where
  "generate_barcode_image_bytes lib http_str barcode_type data options =
     try_except (barcode_try_body lib barcode_type data options)
       (barcode_except http_str barcode_type)"

subsection \<open>Request models\<close>

text \<open>
  The models stand after the helpers here only because their field names are the helpers'
  parameter names.
\<close>

record QRCodeRequest =
  data :: string
  filename :: unicode
  fill_color :: string
  back_color :: string
  version :: int
  box_size :: int
  border :: int

record BarcodeRequest =
  barcode_type :: string
  data :: string
  filename :: unicode
  options :: options

subsection \<open>Endpoints\<close>

text \<open>
  The header both endpoints give: \<^verbatim>\<open>Content-Disposition\<close>, whose value is the f-string
  \<^verbatim>\<open>inline; filename=\<close>, a double quote, the file name of the request, a double quote.
\<close>

definition content_disposition :: "unicode \<Rightarrow> string \<times> unicode" where
  "content_disposition name =
     (''Content-Disposition'',
      unicode_of (''inline; filename='' @ dquote) @ name @ unicode_of dquote)"

text \<open>
  An expression that may raise, as a step of a computation. The endpoints build their
  response after the helper has returned, outside every \<^verbatim>\<open>try\<close> block.
\<close>

definition evaluate :: "exn + 'a \<Rightarrow> 'a action" where
  "evaluate result log = (result, log)"

definition generate_qr_code_api ::
  "('qr, 'img) qrcode_lib \<Rightarrow> (nat \<Rightarrow> string \<Rightarrow> string) \<Rightarrow> QRCodeRequest \<Rightarrow> response action" where
  "generate_qr_code_api lib http_str request =
     bind (generate_qr_code_image_bytes lib http_str
             (QRCodeRequest.data request) (fill_color request) (back_color request)
             (version request) (box_size request) (border request)) (\<lambda>img_bytes.
     evaluate (StreamingResponse img_bytes ''image/png''
                 [content_disposition (QRCodeRequest.filename request)]))"

definition generate_barcode_api ::
  "('cls, 'bc) barcode_lib \<Rightarrow> (nat \<Rightarrow> string \<Rightarrow> string) \<Rightarrow> BarcodeRequest \<Rightarrow> response action" where
  "generate_barcode_api lib http_str request =
     bind (generate_barcode_image_bytes lib http_str
             (barcode_type request) (data request) (options request)) (\<lambda>img_bytes.
     evaluate (StreamingResponse img_bytes ''image/png''
                 [content_disposition (filename request)]))"

subsection \<open>Request validation\<close>

text \<open>
  A request body after JSON decoding: each field of the model is absent or holds a value of
  its declared type. (How pydantic coerces a JSON value of another type is not modelled.)
\<close>

record QRCodeBody =
  qr_data :: "string option"
  qr_filename :: "unicode option"
  qr_fill_color :: "string option"
  qr_back_color :: "string option"
  qr_version :: "int option"
  qr_box_size :: "int option"
  qr_border :: "int option"

record BarcodeBody =
  bc_barcode_type :: "string option"
  bc_data :: "string option"
  bc_filename :: "unicode option"
  bc_options :: "options option"

text \<open>\<^verbatim>\<open>Field(...)\<close>: the field is required.\<close>

definition required :: "string \<Rightarrow> 'a option \<Rightarrow> validation_error list" where
  "required name x = (case x of None \<Rightarrow> [(name, Required)] | Some _ \<Rightarrow> [])"

text \<open>\<^verbatim>\<open>Field(default, ...)\<close>: an absent field takes the default.\<close>

definition field_default :: "'a \<Rightarrow> 'a option \<Rightarrow> 'a" where
  "field_default d x = (case x of None \<Rightarrow> d | Some v \<Rightarrow> v)"

text \<open>\<^verbatim>\<open>ge=bound\<close> and \<^verbatim>\<open>le=bound\<close>, checked on a value that is given.\<close>

definition check_ge :: "string \<Rightarrow> int \<Rightarrow> int option \<Rightarrow> validation_error list" where
  "check_ge name bound x =
     (case x of None \<Rightarrow> [] | Some v \<Rightarrow> if bound \<le> v then [] else [(name, Ge bound)])"

definition check_le :: "string \<Rightarrow> int \<Rightarrow> int option \<Rightarrow> validation_error list" where
  "check_le name bound x =
     (case x of None \<Rightarrow> [] | Some v \<Rightarrow> if v \<le> bound then [] else [(name, Le bound)])"

text \<open>
  The constraints \<^verbatim>\<open>QRCodeRequest\<close> declares, in the order of its fields. The strings
  carry no constraint but their presence (\<^verbatim>\<open>data\<close>) or none at all.
\<close>

definition QRCodeRequest_errors :: "QRCodeBody \<Rightarrow> validation_error list" where
  "QRCodeRequest_errors b =
     required ''data'' (qr_data b)
     @ check_ge ''version'' 1 (qr_version b) @ check_le ''version'' 40 (qr_version b)
     @ check_ge ''box_size'' 1 (qr_box_size b)
     @ check_ge ''border'' 0 (qr_border b)"

definition QRCodeRequest_validate :: "QRCodeBody \<Rightarrow> validation_error list + QRCodeRequest" where
  "QRCodeRequest_validate b =
     (case (QRCodeRequest_errors b, qr_data b) of
        ([], Some d) \<Rightarrow>
          Inr \<lparr>QRCodeRequest.data = d,
               QRCodeRequest.filename = field_default (unicode_of ''qrcode.png'') (qr_filename b),
               fill_color = field_default ''black'' (qr_fill_color b),
               back_color = field_default ''white'' (qr_back_color b),
               version = field_default 1 (qr_version b),
               box_size = field_default 10 (qr_box_size b),
               border = field_default 4 (qr_border b)\<rparr>
      | (errors, _) \<Rightarrow> Inl errors)"

definition BarcodeRequest_errors :: "BarcodeBody \<Rightarrow> validation_error list" where
  "BarcodeRequest_errors b =
     required ''barcode_type'' (bc_barcode_type b) @ required ''data'' (bc_data b)"

definition BarcodeRequest_validate :: "BarcodeBody \<Rightarrow> validation_error list + BarcodeRequest" where
  "BarcodeRequest_validate b =
     (case (bc_barcode_type b, bc_data b) of
        (Some t, Some d) \<Rightarrow>
          Inr \<lparr>barcode_type = t,
               data = d,
               filename = field_default (unicode_of ''barcode.png'') (bc_filename b),
               options = field_default [] (bc_options b)\<rparr>
      | _ \<Rightarrow> Inl (BarcodeRequest_errors b))"

subsection \<open>The application\<close>

text \<open>
  What the framework does around an endpoint. A body that fails validation never reaches
  the endpoint: the framework answers with its request-validation error, status 422 (the
  module installs no exception handler of its own). An \<^verbatim>\<open>HTTPException\<close> raised by the
  endpoint becomes a JSON body \<^verbatim>\<open>{"detail": detail}\<close> with the exception's status; any
  other exception, such as the \<^verbatim>\<open>UnicodeEncodeError\<close> of the response constructor, is the
  server's plain-text 500.
\<close>

definition request_validation_error_response :: "validation_error list \<Rightarrow> response" where
  "request_validation_error_response errors =
     \<lparr>status_code = HTTP_422_UNPROCESSABLE_ENTITY, media_type = ''application/json'',
      headers = [], body = Validation_errors errors\<rparr>"

definition exception_response :: "exn \<Rightarrow> response" where
  "exception_response e =
     (case e of
        HTTPException code detail \<Rightarrow>
          \<lparr>status_code = code, media_type = ''application/json'', headers = [],
           body = Detail detail\<rparr>
      | _ \<Rightarrow>
          \<lparr>status_code = HTTP_500_INTERNAL_SERVER_ERROR, media_type = ''text/plain'',
           headers = [], body = Plain_text ''Internal Server Error''\<rparr>)"

text \<open>One request: the response, and the library calls made while serving it.\<close>

definition post ::
  "('b \<Rightarrow> validation_error list + 'r) \<Rightarrow> ('r \<Rightarrow> response action) \<Rightarrow> 'b \<Rightarrow>
   response \<times> lib_call list" where
  "post validate endpoint b =
     (case validate b of
        Inl errors \<Rightarrow> (request_validation_error_response errors, [])
      | Inr request \<Rightarrow>
          (case endpoint request [] of
             (Inl e, log) \<Rightarrow> (exception_response e, log)
           | (Inr r, log) \<Rightarrow> (r, log)))"

definition post_generate_qr ::
  "('qr, 'img) qrcode_lib \<Rightarrow> (nat \<Rightarrow> string \<Rightarrow> string) \<Rightarrow> QRCodeBody \<Rightarrow>
   response \<times> lib_call list" where
  "post_generate_qr lib http_str = post QRCodeRequest_validate (generate_qr_code_api lib http_str)"

definition post_generate_barcode ::
  "('cls, 'bc) barcode_lib \<Rightarrow> (nat \<Rightarrow> string \<Rightarrow> string) \<Rightarrow> BarcodeBody \<Rightarrow>
   response \<times> lib_call list" where
  "post_generate_barcode lib http_str =
     post BarcodeRequest_validate (generate_barcode_api lib http_str)"

subsection \<open>The qrcode library's fitting of the version\<close>

text \<open>
  \<^verbatim>\<open>qr.make(fit=True)\<close> is a call into the library, whose documentation gives \<^verbatim>\<open>fit\<close>
  this meaning: the version of the object is where the search for a version starts, the
  symbol is made at the smallest version from there up to 40 that holds the data, and
  the library's data-overflow error is raised when none does. The following is that
  contract and nothing more of the library. What the library's tables and renderers
  compute is a parameter: \<open>holds v d\<close> says that a symbol of version \<open>v\<close> (at error
  correction H, the only level the module asks for) has room for the data \<open>d\<close>.
\<close>

record QRCode_object =
  obj_version :: int
  obj_error_correction :: error_correction
  obj_box_size :: int
  obj_border :: int
  obj_data :: string

record 'img qrcode_behaviour =
  holds :: "int \<Rightarrow> string \<Rightarrow> bool"
  overflow :: exn
  out_of_range :: exn
  make_unfitted :: "QRCode_object \<Rightarrow> exn + QRCode_object"
  render :: "QRCode_object \<Rightarrow> string \<Rightarrow> string \<Rightarrow> exn + 'img"
  encode_image :: "'img \<Rightarrow> string \<Rightarrow> exn + bytes"

definition best_fit :: "(int \<Rightarrow> string \<Rightarrow> bool) \<Rightarrow> int \<Rightarrow> string \<Rightarrow> int option" where
  "best_fit room start d = List.find (\<lambda>v. room v d) [start..40]"

definition qrcode_documented :: "'img qrcode_behaviour \<Rightarrow> (QRCode_object, 'img) qrcode_lib" where
  "qrcode_documented p =
     \<lparr>QRCode = (\<lambda>v ec bs bd.
         if 1 \<le> v \<and> v \<le> 40 \<and> 1 \<le> bs \<and> 0 \<le> bd
         then Inr \<lparr>obj_version = v, obj_error_correction = ec, obj_box_size = bs,
                   obj_border = bd, obj_data = []\<rparr>
         else Inl (out_of_range p)),
      add_data = (\<lambda>q d. Inr (q\<lparr>obj_data := obj_data q @ d\<rparr>)),
      qr_make = (\<lambda>q fit.
         if fit
         then (case best_fit (holds p) (obj_version q) (obj_data q) of
                 None \<Rightarrow> Inl (overflow p)
               | Some v \<Rightarrow> Inr (q\<lparr>obj_version := v\<rparr>))
         else make_unfitted p q),
      make_image = render p,
      save = encode_image p\<rparr>"

subsection \<open>Example libraries\<close>

text \<open>
  The number of bytes a symbol of each version 1 to 40 holds at error correction H in byte
  mode (the mode of data with a character outside the digits and the upper-case
  alphanumeric set). Data in the denser modes fits wherever this table says it does.
\<close>

definition byte_capacity_H :: "nat list" where
  "byte_capacity_H =
     [7, 14, 24, 34, 44, 58, 64, 84, 98, 119,
      137, 155, 177, 194, 220, 250, 280, 310, 338, 382,
      403, 439, 461, 511, 535, 593, 625, 658, 698, 742,
      790, 842, 898, 958, 983, 1051, 1093, 1139, 1219, 1273]"

definition holds_bytes_H :: "int \<Rightarrow> string \<Rightarrow> bool" where
  "holds_bytes_H v d = (1 \<le> v \<and> v \<le> 40 \<and> length d \<le> byte_capacity_H ! nat (v - 1))"

definition png_signature :: bytes where
  "png_signature = [137, 80, 78, 71, 13, 10, 26, 10]"

text \<open>A \<^verbatim>\<open>qrcode\<close> library that fits the version as documented and renders without fault.\<close>

definition example_qrcode :: "unit qrcode_behaviour" where
  "example_qrcode =
     \<lparr>holds = holds_bytes_H,
      overflow = Exception [],
      out_of_range = Exception ''Invalid version'',
      make_unfitted = Inr,
      render = (\<lambda>q fill back. Inr ()),
      encode_image = (\<lambda>img format. Inr png_signature)\<rparr>"

text \<open>
  The same, with an image that shows the version it was made at: the bytes written end
  with the version of the symbol.
\<close>

definition example_qrcode_versioned :: "int qrcode_behaviour" where
  "example_qrcode_versioned =
     \<lparr>holds = holds_bytes_H,
      overflow = Exception [],
      out_of_range = Exception ''Invalid version'',
      make_unfitted = Inr,
      render = (\<lambda>q fill back. Inr (obj_version q)),
      encode_image = (\<lambda>img format. Inr (png_signature @ [word_of_int img]))\<rparr>"

text \<open>One whose renderer faults (an unknown colour name, say).\<close>

definition example_qrcode_faulty :: "unit qrcode_behaviour" where
  "example_qrcode_faulty =
     example_qrcode\<lparr>render := (\<lambda>q fill back. Inl (Exception ''unknown color specifier''))\<rparr>"

text \<open>
  A \<^verbatim>\<open>barcode\<close> library that knows every name, takes twelve characters of data and
  raises its \<^verbatim>\<open>BarcodeError\<close> on any other length.
\<close>

definition example_barcode :: "(string, string) barcode_lib" where
  "example_barcode =
     \<lparr>barcode_get = Inr,
      barcode_class = (\<lambda>cls d.
         if length d = 12 then Inr d else Inl (BarcodeError ''EAN must have 12 digits'')),
      barcode_write = (\<lambda>inst opts. Inr png_signature)\<rparr>"

subsection \<open>Names that differ in case or surrounding whitespace\<close>

text \<open>
  The module compares the barcode type as it is given. To say which strings differ from a
  supported name only in case or in surrounding whitespace, the ASCII forms of
  \<^verbatim>\<open>str.lower\<close> and \<^verbatim>\<open>str.strip\<close>; the module itself calls neither.
\<close>

definition lower_char :: "char \<Rightarrow> char" where
  "lower_char c =
     (let n = (of_char c :: nat) in if 65 \<le> n \<and> n \<le> 90 then char_of (n + 32) else c)"

definition is_space :: "char \<Rightarrow> bool" where
  "is_space c = ((of_char c :: nat) \<in> {9, 10, 11, 12, 13, 28, 29, 30, 31, 32})"

definition strip :: "string \<Rightarrow> string" where
  "strip s = rev (dropWhile is_space (rev (dropWhile is_space s)))"

definition lower :: "string \<Rightarrow> string" where
  "lower s = map lower_char s"

section \<open>Properties\<close>

subsection \<open>Evaluation rules of the computations\<close>

lemma bind_call_Inl: "bind (call c (Inl e)) f log = (Inl e, log @ [c])"
  by (simp add: bind_def call_def)

lemma bind_call_Inr: "bind (call c (Inr x)) f log = f x (log @ [c])"
  by (simp add: bind_def call_def)

lemma evaluate_result: "bind m (\<lambda>x. evaluate (f x)) log =
    (case m log of (Inl e, l) \<Rightarrow> (Inl e, l) | (Inr x, l) \<Rightarrow> (f x, l))"
  by (simp add: bind_def evaluate_def split: prod.splits sum.splits)

lemma latin1_encodable_unicode_of: "latin1_encodable (unicode_of s)"
  by (simp add: latin1_encodable_def unicode_of_def list_all_iff)

lemma latin1_encodable_append:
  "latin1_encodable (a @ b) = (latin1_encodable a \<and> latin1_encodable b)"
  by (simp add: latin1_encodable_def)

lemma StreamingResponse_rewound:
  "StreamingResponse \<lparr>buffer = written, pos = 0\<rparr> mt [content_disposition name] =
     (if latin1_encodable name
      then Inr \<lparr>status_code = HTTP_200_OK, media_type = mt,
                headers = [content_disposition name], body = Image written\<rparr>
      else Inl (Exception ''UnicodeEncodeError''))"
  by (simp add: StreamingResponse_def content_disposition_def read_all_def
      latin1_encodable_append latin1_encodable_unicode_of)

lemma rewound_buffer:
  "seek (BytesIO_write BytesIO_new written) 0 = \<lparr>buffer = written, pos = 0\<rparr>"
  by (simp add: seek_def BytesIO_write_def BytesIO_new_def)

lemma join_supported:
  "join '', '' supported_barcode_types =
     ''ean8, ean13, upca, jan, isbn10, isbn13, issn, code39, code128, pzn, gs1''"
  by (simp add: supported_barcode_types_def)

subsection \<open>The barcode helper and its endpoint\<close>

lemma barcode_unsupported_body:
  "t \<notin> set supported_barcode_types \<Longrightarrow>
   barcode_try_body lib t d opts log =
     (Inl (HTTPException HTTP_400_BAD_REQUEST
        (''Unsupported barcode type: '' @ squote @ t @ squote @ ''. Supported types: ''
         @ ''ean8, ean13, upca, jan, isbn10, isbn13, issn, code39, code128, pzn, gs1'')), log)"
  by (simp add: barcode_try_body_def raise_def join_supported)

lemma barcode_unsupported_helper:
  "t \<notin> set supported_barcode_types \<Longrightarrow>
   generate_barcode_image_bytes lib hs t d opts log =
     (Inl (HTTPException HTTP_500_INTERNAL_SERVER_ERROR
        (''Failed to generate barcode: '' @ hs HTTP_400_BAD_REQUEST
          (''Unsupported barcode type: '' @ squote @ t @ squote @ ''. Supported types: ''
           @ ''ean8, ean13, upca, jan, isbn10, isbn13, issn, code39, code128, pzn, gs1''))), log)"
  by (simp add: generate_barcode_image_bytes_def try_except_def barcode_unsupported_body
      barcode_except_def raise_def str_def)

lemma post_barcode_valid:
  "bc_barcode_type b = Some t \<Longrightarrow> bc_data b = Some d \<Longrightarrow>
   post_generate_barcode lib hs b =
     (case generate_barcode_image_bytes lib hs t d (field_default [] (bc_options b)) [] of
        (Inl e, log) \<Rightarrow> (exception_response e, log)
      | (Inr buf, log) \<Rightarrow>
          (case StreamingResponse buf ''image/png''
                  [content_disposition
                     (field_default (unicode_of ''barcode.png'') (bc_filename b))] of
             Inl e \<Rightarrow> exception_response e
           | Inr r \<Rightarrow> r, log))"
  by (simp add: post_generate_barcode_def post_def BarcodeRequest_validate_def
      generate_barcode_api_def evaluate_result split: prod.splits sum.splits)

text \<open>
  C1. A barcode type outside the supported set. The \<^verbatim>\<open>raise\<close> of the 400 stands inside
  the \<^verbatim>\<open>try\<close> block, and the last handler, \<^verbatim>\<open>except Exception\<close>, catches it: the request
  with \<^verbatim>\<open>barcode_type = "qrcode"\<close> is answered with status 500, the message of the 400
  wrapped in ``Failed to generate barcode''.
\<close>

theorem unsupported_barcode_type_answered_500:
  "post_generate_barcode lib http_str
     \<lparr>bc_barcode_type = Some ''qrcode'', bc_data = Some ''123'',
      bc_filename = None, bc_options = None\<rparr> =
   (\<lparr>status_code = HTTP_500_INTERNAL_SERVER_ERROR, media_type = ''application/json'',
     headers = [],
     body = Detail (''Failed to generate barcode: '' @ http_str HTTP_400_BAD_REQUEST
       (''Unsupported barcode type: '' @ squote @ ''qrcode'' @ squote @ ''. Supported types: ''
        @ ''ean8, ean13, upca, jan, isbn10, isbn13, issn, code39, code128, pzn, gs1''))\<rparr>, [])"
proof -
  have "''qrcode'' \<notin> set supported_barcode_types"
    by (simp add: supported_barcode_types_def)
  then show ?thesis
    by (simp add: post_barcode_valid barcode_unsupported_helper exception_response_def)
qed

lemma supported_iff:
  "(t \<in> set supported_barcode_types) =
   (t = ''ean8'' \<or> t = ''ean13'' \<or> t = ''upca'' \<or> t = ''jan'' \<or> t = ''isbn10'' \<or> t = ''isbn13''
    \<or> t = ''issn'' \<or> t = ''code39'' \<or> t = ''code128'' \<or> t = ''pzn'' \<or> t = ''gs1'')"
  by (simp add: supported_barcode_types_def)

lemma supported_lower_strip:
  "s \<in> set supported_barcode_types \<Longrightarrow> lower (strip s) = s"
  unfolding supported_iff
  by (elim disjE) (simp_all add: lower_def strip_def is_space_def lower_char_def)

lemma barcode_try_body_supported:
  "t \<in> set supported_barcode_types \<Longrightarrow>
   barcode_try_body lib t d opts log =
     (case barcode_get lib t of
        Inl e \<Rightarrow> (Inl e, log @ [Call_barcode_get t])
      | Inr cls \<Rightarrow>
          (case barcode_class lib cls d of
             Inl e \<Rightarrow> (Inl e, log @ [Call_barcode_get t, Call_barcode_class d])
           | Inr inst \<Rightarrow>
               (case barcode_write lib inst opts of
                  Inl e \<Rightarrow>
                    (Inl e, log @ [Call_barcode_get t, Call_barcode_class d, Call_barcode_write opts])
                | Inr written \<Rightarrow>
                    (Inr \<lparr>buffer = written, pos = 0\<rparr>,
                     log @ [Call_barcode_get t, Call_barcode_class d, Call_barcode_write opts]))))"
  by (simp add: barcode_try_body_def bind_call_Inl bind_call_Inr return_val_def rewound_buffer
      split: sum.splits)

lemma generate_barcode_BarcodeError:
  "barcode_try_body lib t d opts log = (Inl (BarcodeError m), log') \<Longrightarrow>
   generate_barcode_image_bytes lib hs t d opts log =
     (Inl (HTTPException HTTP_400_BAD_REQUEST
        (''Invalid data for barcode type '' @ squote @ t @ squote @ '': '' @ m
         @ ''. Please check data format and length.'')), log')"
  by (simp add: generate_barcode_image_bytes_def try_except_def barcode_except_def raise_def
      str_def)

text \<open>
  C4. A supported barcode type whose data the encoder refuses: whichever of the three
  library calls raises the library's \<^verbatim>\<open>BarcodeError\<close>, the response has status 400 and
  its detail is ``Invalid data for barcode type '<type>': <cause>. Please check data format
  and length.'', with the type of the request and the message of the error.
\<close>

theorem invalid_barcode_data_answered_400:
  assumes "bc_barcode_type b = Some t" and "bc_data b = Some d"
    and "t \<in> set supported_barcode_types"
    and "barcode_get lib t = Inl (BarcodeError cause)
       \<or> (\<exists>cls. barcode_get lib t = Inr cls
            \<and> (barcode_class lib cls d = Inl (BarcodeError cause)
               \<or> (\<exists>inst. barcode_class lib cls d = Inr inst
                    \<and> barcode_write lib inst (field_default [] (bc_options b))
                        = Inl (BarcodeError cause))))"
  shows "fst (post_generate_barcode lib http_str b) =
     \<lparr>status_code = HTTP_400_BAD_REQUEST, media_type = ''application/json'', headers = [],
      body = Detail (''Invalid data for barcode type '' @ squote @ t @ squote @ '': '' @ cause
                     @ ''. Please check data format and length.'')\<rparr>"
proof -
  from assms(3,4) obtain log where
    "barcode_try_body lib t d (field_default [] (bc_options b)) [] = (Inl (BarcodeError cause), log)"
    by (auto simp: barcode_try_body_supported)
  then show ?thesis
    using assms(1,2)
    by (simp add: post_barcode_valid generate_barcode_BarcodeError exception_response_def)
qed

theorem invalid_barcode_data_answered_400_witness:
  "''ean13'' \<in> set supported_barcode_types
   \<and> barcode_get example_barcode ''ean13'' = Inr ''ean13''
   \<and> barcode_class example_barcode ''ean13'' ''12345'' = Inl (BarcodeError ''EAN must have 12 digits'')
   \<and> fst (post_generate_barcode example_barcode (\<lambda>code detail. detail)
        \<lparr>bc_barcode_type = Some ''ean13'', bc_data = Some ''12345'',
         bc_filename = None, bc_options = None\<rparr>) =
     \<lparr>status_code = HTTP_400_BAD_REQUEST, media_type = ''application/json'', headers = [],
      body = Detail (''Invalid data for barcode type '' @ squote @ ''ean13'' @ squote
                     @ '': EAN must have 12 digits. Please check data format and length.'')\<rparr>"
proof -
  have t: "''ean13'' \<in> set supported_barcode_types"
    by (simp add: supported_barcode_types_def)
  have g: "barcode_get example_barcode ''ean13'' = Inr ''ean13''"
    by (simp add: example_barcode_def)
  have c: "barcode_class example_barcode ''ean13'' ''12345'' = Inl (BarcodeError ''EAN must have 12 digits'')"
    by (simp add: example_barcode_def)
  show ?thesis
    using t g c
      invalid_barcode_data_answered_400 [of
        "\<lparr>bc_barcode_type = Some ''ean13'', bc_data = Some ''12345'',
          bc_filename = None, bc_options = None\<rparr>"
        "''ean13''" "''12345''" example_barcode "''EAN must have 12 digits''" "\<lambda>code detail. detail"]
    by simp
qed


text \<open>
  C9. The membership test is equality of strings with one of the eleven names. A type
  that differs from a supported name \<open>s\<close> only in case or in surrounding whitespace
  (lower-casing and stripping it gives \<open>s\<close>, and it is not \<open>s\<close>) is not in the list: the
  \<^verbatim>\<open>try\<close> block raises the unsupported-type exception before any library call, and the
  request is served without one.
\<close>

theorem barcode_type_compared_exactly:
  assumes "s \<in> set supported_barcode_types" and "lower (strip t) = s" and "t \<noteq> s"
    and "bc_barcode_type b = Some t" and "bc_data b = Some d"
  shows "(u \<in> set supported_barcode_types) =
       (u = ''ean8'' \<or> u = ''ean13'' \<or> u = ''upca'' \<or> u = ''jan'' \<or> u = ''isbn10''
        \<or> u = ''isbn13'' \<or> u = ''issn'' \<or> u = ''code39'' \<or> u = ''code128''
        \<or> u = ''pzn'' \<or> u = ''gs1'')
     \<and> t \<notin> set supported_barcode_types
     \<and> barcode_try_body lib t d (field_default [] (bc_options b)) [] =
         (Inl (HTTPException HTTP_400_BAD_REQUEST
            (''Unsupported barcode type: '' @ squote @ t @ squote @ ''. Supported types: ''
             @ ''ean8, ean13, upca, jan, isbn10, isbn13, issn, code39, code128, pzn, gs1'')), [])
     \<and> snd (post_generate_barcode lib http_str b) = []"
proof -
  have out: "t \<notin> set supported_barcode_types"
  proof
    assume "t \<in> set supported_barcode_types"
    then have "lower (strip t) = t" by (rule supported_lower_strip)
    with assms(2,3) show False by simp
  qed
  moreover from out have "snd (post_generate_barcode lib http_str b) = []"
    using assms(4,5) by (simp add: post_barcode_valid barcode_unsupported_helper)
  ultimately show ?thesis
    by (simp add: barcode_unsupported_body supported_iff [of u])
qed

theorem barcode_type_compared_exactly_witness:
  "''ean13'' \<in> set supported_barcode_types
   \<and> lower (strip ''EAN13'') = ''ean13'' \<and> ''EAN13'' \<noteq> ''ean13''
   \<and> lower (strip ''ean13 '') = ''ean13'' \<and> ''ean13 '' \<noteq> ''ean13''
   \<and> ''EAN13'' \<notin> set supported_barcode_types
   \<and> ''ean13 '' \<notin> set supported_barcode_types
   \<and> snd (post_generate_barcode example_barcode (\<lambda>code detail. detail)
        \<lparr>bc_barcode_type = Some ''EAN13'', bc_data = Some ''123456789012'',
         bc_filename = None, bc_options = None\<rparr>) = []
   \<and> snd (post_generate_barcode example_barcode (\<lambda>code detail. detail)
        \<lparr>bc_barcode_type = Some ''ean13 '', bc_data = Some ''123456789012'',
         bc_filename = None, bc_options = None\<rparr>) = []"
proof -
  have s: "''ean13'' \<in> set supported_barcode_types"
    by (simp add: supported_barcode_types_def)
  have u: "lower (strip ''EAN13'') = ''ean13''" "''EAN13'' \<noteq> ''ean13''"
    by code_simp+
  have w: "lower (strip ''ean13 '') = ''ean13''" "''ean13 '' \<noteq> ''ean13''"
    by code_simp+
  show ?thesis
    using s u w
      barcode_type_compared_exactly [OF s u, where
        b = "\<lparr>bc_barcode_type = Some ''EAN13'', bc_data = Some ''123456789012'',
          bc_filename = None, bc_options = None\<rparr>" and d = "''123456789012''"
        and lib = example_barcode and http_str = "\<lambda>code detail. detail"]
      barcode_type_compared_exactly [OF s w, where
        b = "\<lparr>bc_barcode_type = Some ''ean13 '', bc_data = Some ''123456789012'',
          bc_filename = None, bc_options = None\<rparr>" and d = "''123456789012''"
        and lib = example_barcode and http_str = "\<lambda>code detail. detail"]
    by simp
qed

lemma generate_barcode_ok:
  "barcode_try_body lib t d opts log = (Inr buf, log') \<Longrightarrow>
   generate_barcode_image_bytes lib hs t d opts log = (Inr buf, log')"
  by (simp add: generate_barcode_image_bytes_def try_except_def)

lemma barcode_log_supported:
  "t \<in> set supported_barcode_types \<Longrightarrow>
   snd (generate_barcode_image_bytes lib hs t d opts log) = snd (barcode_try_body lib t d opts log)"
  by (cases "barcode_try_body lib t d opts log")
     (auto simp: generate_barcode_image_bytes_def try_except_def barcode_except_def raise_def
       split: sum.splits exn.splits)

text \<open>
  C10. A barcode request that gives its two required fields validates; an omitted
  \<^verbatim>\<open>filename\<close> is "barcode.png" and an omitted \<^verbatim>\<open>options\<close> the empty mapping. Every
  \<^verbatim>\<open>write\<close> call the request leads to is made with the options of the validated request,
  and when the type is supported and the two calls before succeed, \<^verbatim>\<open>write\<close> is called
  with exactly these options; what it writes is the body of the response, provided the
  response can be built (the file name has a latin-1 encoding).
\<close>

theorem barcode_defaults_and_options:
  assumes "bc_barcode_type b = Some t" and "bc_data b = Some d"
  shows "\<exists>request.
     BarcodeRequest_validate b = Inr request
     \<and> filename request =
         (case bc_filename b of None \<Rightarrow> unicode_of ''barcode.png'' | Some f \<Rightarrow> f)
     \<and> options request = (case bc_options b of None \<Rightarrow> [] | Some opts \<Rightarrow> opts)
     \<and> (\<forall>c \<in> set (snd (post_generate_barcode lib http_str b)). \<forall>opts.
          c = Call_barcode_write opts \<longrightarrow> opts = options request)
     \<and> (t \<in> set supported_barcode_types \<and> barcode_get lib t = Inr cls
          \<and> barcode_class lib cls d = Inr inst \<longrightarrow>
        snd (post_generate_barcode lib http_str b) =
          [Call_barcode_get t, Call_barcode_class d, Call_barcode_write (options request)]
        \<and> (\<forall>written. barcode_write lib inst (options request) = Inr written
               \<and> latin1_encodable (filename request) \<longrightarrow>
             body (fst (post_generate_barcode lib http_str b)) = Image written))"
proof -
  let ?opts = "field_default [] (bc_options b)"
  let ?request = "\<lparr>barcode_type = t, data = d,
    filename = field_default (unicode_of ''barcode.png'') (bc_filename b), options = ?opts\<rparr>"
  have v: "BarcodeRequest_validate b = Inr ?request"
    using assms by (simp add: BarcodeRequest_validate_def)
  have log: "snd (post_generate_barcode lib http_str b) =
      snd (generate_barcode_image_bytes lib http_str t d ?opts [])"
    using assms by (simp add: post_barcode_valid split: prod.splits sum.splits)
  have calls: "\<forall>c \<in> set (snd (post_generate_barcode lib http_str b)). \<forall>opts.
      c = Call_barcode_write opts \<longrightarrow> opts = ?opts"
  proof (cases "t \<in> set supported_barcode_types")
    case True
    then show ?thesis
      unfolding log
      by (auto simp: barcode_log_supported barcode_try_body_supported split: sum.splits)
  next
    case False
    then show ?thesis
      unfolding log by (simp add: barcode_unsupported_helper)
  qed
  have through: "snd (post_generate_barcode lib http_str b) =
        [Call_barcode_get t, Call_barcode_class d, Call_barcode_write ?opts]
      \<and> (\<forall>written. barcode_write lib inst ?opts = Inr written
             \<and> latin1_encodable (field_default (unicode_of ''barcode.png'') (bc_filename b)) \<longrightarrow>
           body (fst (post_generate_barcode lib http_str b)) = Image written)"
    if "t \<in> set supported_barcode_types" "barcode_get lib t = Inr cls"
      "barcode_class lib cls d = Inr inst"
  proof (cases "barcode_write lib inst ?opts")
    case (Inl e)
    with that have "snd (barcode_try_body lib t d ?opts []) =
        [Call_barcode_get t, Call_barcode_class d, Call_barcode_write ?opts]"
      by (simp add: barcode_try_body_supported)
    with that(1) Inl show ?thesis
      unfolding log by (simp add: barcode_log_supported)
  next
    case (Inr written)
    with that have "barcode_try_body lib t d ?opts [] =
        (Inr \<lparr>buffer = written, pos = 0\<rparr>,
         [Call_barcode_get t, Call_barcode_class d, Call_barcode_write ?opts])"
      by (simp add: barcode_try_body_supported)
    then have "generate_barcode_image_bytes lib http_str t d ?opts [] =
        (Inr \<lparr>buffer = written, pos = 0\<rparr>,
         [Call_barcode_get t, Call_barcode_class d, Call_barcode_write ?opts])"
      by (rule generate_barcode_ok)
    with assms Inr show ?thesis
      by (simp add: post_barcode_valid StreamingResponse_rewound)
  qed
  have f: "filename ?request =
      (case bc_filename b of None \<Rightarrow> unicode_of ''barcode.png'' | Some f \<Rightarrow> f)"
    by (simp add: field_default_def)
  have opt: "options ?request = (case bc_options b of None \<Rightarrow> [] | Some opts \<Rightarrow> opts)"
    by (simp add: field_default_def)
  show ?thesis
  proof (intro exI [of _ ?request] conjI impI)
    show "BarcodeRequest_validate b = Inr ?request" by (rule v)
    show "filename ?request =
        (case bc_filename b of None \<Rightarrow> unicode_of ''barcode.png'' | Some f \<Rightarrow> f)"
      by (rule f)
    show "options ?request = (case bc_options b of None \<Rightarrow> [] | Some opts \<Rightarrow> opts)"
      by (rule opt)
    show "\<forall>c \<in> set (snd (post_generate_barcode lib http_str b)). \<forall>opts.
        c = Call_barcode_write opts \<longrightarrow> opts = options ?request"
      using calls by simp
  next
    assume h: "t \<in> set supported_barcode_types \<and> barcode_get lib t = Inr cls
        \<and> barcode_class lib cls d = Inr inst"
    then show "snd (post_generate_barcode lib http_str b) =
        [Call_barcode_get t, Call_barcode_class d, Call_barcode_write (options ?request)]"
      using through by simp
    from h show "\<forall>written. barcode_write lib inst (options ?request) = Inr written
          \<and> latin1_encodable (filename ?request) \<longrightarrow>
        body (fst (post_generate_barcode lib http_str b)) = Image written"
      using through by simp
  qed
qed

theorem barcode_defaults_and_options_witness:
  "BarcodeRequest_validate
      \<lparr>bc_barcode_type = Some ''ean13'', bc_data = Some ''123456789012'',
       bc_filename = None, bc_options = None\<rparr> =
     Inr \<lparr>barcode_type = ''ean13'', data = ''123456789012'', filename = unicode_of ''barcode.png'',
          options = []\<rparr>
   \<and> post_generate_barcode example_barcode (\<lambda>code detail. detail)
      \<lparr>bc_barcode_type = Some ''ean13'', bc_data = Some ''123456789012'',
       bc_filename = None, bc_options = None\<rparr> =
     (\<lparr>status_code = HTTP_200_OK, media_type = ''image/png'',
       headers = [content_disposition (unicode_of ''barcode.png'')],
       body = Image png_signature\<rparr>,
      [Call_barcode_get ''ean13'', Call_barcode_class ''123456789012'', Call_barcode_write []])
   \<and> snd (post_generate_barcode example_barcode (\<lambda>code detail. detail)
      \<lparr>bc_barcode_type = Some ''ean13'', bc_data = Some ''123456789012'',
       bc_filename = None, bc_options = Some [(''font_size'', JNumber 10)]\<rparr>) =
     [Call_barcode_get ''ean13'', Call_barcode_class ''123456789012'',
      Call_barcode_write [(''font_size'', JNumber 10)]]"
proof -
  have s: "''ean13'' \<in> set supported_barcode_types"
    by (simp add: supported_barcode_types_def)
  have g: "barcode_get example_barcode ''ean13'' = Inr ''ean13''"
    and c: "barcode_class example_barcode ''ean13'' ''123456789012'' = Inr ''123456789012''"
    and w: "barcode_write example_barcode ''123456789012'' opts = Inr png_signature" for opts
    by (simp_all add: example_barcode_def)
  note b = barcode_defaults_and_options [of
      "\<lparr>bc_barcode_type = Some ''ean13'', bc_data = Some ''123456789012'',
        bc_filename = None, bc_options = Some [(''font_size'', JNumber 10)]\<rparr>"
      "''ean13''" "''123456789012''" example_barcode "\<lambda>code detail. detail"
      "''ean13''" "''123456789012''"]
  have v: "BarcodeRequest_validate
      \<lparr>bc_barcode_type = Some ''ean13'', bc_data = Some ''123456789012'',
       bc_filename = None, bc_options = None\<rparr> =
     Inr \<lparr>barcode_type = ''ean13'', data = ''123456789012'', filename = unicode_of ''barcode.png'',
          options = []\<rparr>"
    by (simp add: BarcodeRequest_validate_def field_default_def)
  have r: "post_generate_barcode example_barcode (\<lambda>code detail. detail)
      \<lparr>bc_barcode_type = Some ''ean13'', bc_data = Some ''123456789012'',
       bc_filename = None, bc_options = None\<rparr> =
     (\<lparr>status_code = HTTP_200_OK, media_type = ''image/png'',
       headers = [content_disposition (unicode_of ''barcode.png'')],
       body = Image png_signature\<rparr>,
      [Call_barcode_get ''ean13'', Call_barcode_class ''123456789012'', Call_barcode_write []])"
    using s g c
    by (simp add: post_barcode_valid barcode_try_body_supported generate_barcode_ok w
        StreamingResponse_rewound latin1_encodable_unicode_of field_default_def)
  have l: "snd (post_generate_barcode example_barcode (\<lambda>code detail. detail)
      \<lparr>bc_barcode_type = Some ''ean13'', bc_data = Some ''123456789012'',
       bc_filename = None, bc_options = Some [(''font_size'', JNumber 10)]\<rparr>) =
     [Call_barcode_get ''ean13'', Call_barcode_class ''123456789012'',
      Call_barcode_write [(''font_size'', JNumber 10)]]"
    using b s g c by auto
  from v r l show ?thesis by simp
qed

subsection \<open>The QR helper and its endpoint\<close>

lemma qr_try_body_calls:
  "qr_try_body lib d fc bc v bs bd log =
     (case QRCode lib v ERROR_CORRECT_H bs bd of
        Inl e \<Rightarrow> (Inl e, log @ [Call_QRCode v ERROR_CORRECT_H bs bd])
      | Inr q0 \<Rightarrow>
     (case add_data lib q0 d of
        Inl e \<Rightarrow> (Inl e, log @ [Call_QRCode v ERROR_CORRECT_H bs bd, Call_add_data d])
      | Inr q1 \<Rightarrow>
     (case qr_make lib q1 True of
        Inl e \<Rightarrow> (Inl e, log @ [Call_QRCode v ERROR_CORRECT_H bs bd, Call_add_data d,
                               Call_make True])
      | Inr q2 \<Rightarrow>
     (case make_image lib q2 fc bc of
        Inl e \<Rightarrow> (Inl e, log @ [Call_QRCode v ERROR_CORRECT_H bs bd, Call_add_data d,
                               Call_make True, Call_make_image fc bc])
      | Inr img \<Rightarrow>
     (case save lib img ''PNG'' of
        Inl e \<Rightarrow> (Inl e, log @ [Call_QRCode v ERROR_CORRECT_H bs bd, Call_add_data d,
                               Call_make True, Call_make_image fc bc, Call_save ''PNG''])
      | Inr written \<Rightarrow>
          (Inr \<lparr>buffer = written, pos = 0\<rparr>,
           log @ [Call_QRCode v ERROR_CORRECT_H bs bd, Call_add_data d,
                  Call_make True, Call_make_image fc bc, Call_save ''PNG'']))))))"
  by (simp add: qr_try_body_def bind_call_Inl bind_call_Inr return_val_def rewound_buffer
      split: sum.splits)

lemma generate_qr_cases:
  "generate_qr_code_image_bytes lib hs d fc bc v bs bd log =
     (case qr_try_body lib d fc bc v bs bd log of
        (Inl e, l) \<Rightarrow>
          (Inl (HTTPException HTTP_500_INTERNAL_SERVER_ERROR
                  (''Failed to generate QR Code: '' @ str hs e)), l)
      | (Inr buf, l) \<Rightarrow> (Inr buf, l))"
  by (simp add: generate_qr_code_image_bytes_def try_except_def qr_except_def raise_def
      split: prod.splits sum.splits)

lemma post_qr_valid:
  "QRCodeRequest_validate b = Inr r \<Longrightarrow>
   post_generate_qr lib hs b =
     (case qr_try_body lib (QRCodeRequest.data r) (fill_color r) (back_color r)
             (version r) (box_size r) (border r) [] of
        (Inl e, log) \<Rightarrow>
          (\<lparr>status_code = HTTP_500_INTERNAL_SERVER_ERROR, media_type = ''application/json'',
            headers = [], body = Detail (''Failed to generate QR Code: '' @ str hs e)\<rparr>, log)
      | (Inr buf, log) \<Rightarrow>
          (case StreamingResponse buf ''image/png''
                  [content_disposition (QRCodeRequest.filename r)] of
             Inl e \<Rightarrow> exception_response e
           | Inr r \<Rightarrow> r, log))"
  by (simp add: post_generate_qr_def post_def generate_qr_code_api_def evaluate_result
      generate_qr_cases exception_response_def split: prod.splits sum.splits)

lemma post_qr_invalid:
  "QRCodeRequest_validate b = Inl errors \<Longrightarrow>
   post_generate_qr lib hs b =
     (\<lparr>status_code = HTTP_422_UNPROCESSABLE_ENTITY, media_type = ''application/json'',
       headers = [], body = Validation_errors errors\<rparr>, [])"
  by (simp add: post_generate_qr_def post_def request_validation_error_response_def)

lemma QRCodeRequest_validate_errors:
  "QRCodeRequest_errors b \<noteq> [] \<Longrightarrow> QRCodeRequest_validate b = Inl (QRCodeRequest_errors b)"
  by (simp add: QRCodeRequest_validate_def split: list.splits option.splits)

lemma QRCodeRequest_validate_accepts:
  "QRCodeRequest_errors b = [] \<Longrightarrow>
   \<exists>d. qr_data b = Some d \<and>
     QRCodeRequest_validate b =
       Inr \<lparr>QRCodeRequest.data = d,
            QRCodeRequest.filename = field_default (unicode_of ''qrcode.png'') (qr_filename b),
            fill_color = field_default ''black'' (qr_fill_color b),
            back_color = field_default ''white'' (qr_back_color b),
            version = field_default 1 (qr_version b),
            box_size = field_default 10 (qr_box_size b),
            border = field_default 4 (qr_border b)\<rparr>"
  by (cases "qr_data b") (simp_all add: QRCodeRequest_validate_def QRCodeRequest_errors_def required_def)

lemma QRCodeRequest_validate_Inr:
  assumes "QRCodeRequest_validate b = Inr r"
  shows "qr_data b = Some (QRCodeRequest.data r)"
    and "QRCodeRequest.filename r = field_default (unicode_of ''qrcode.png'') (qr_filename b)"
    and "1 \<le> version r" and "version r \<le> 40" and "1 \<le> box_size r" and "0 \<le> border r"
proof -
  have e: "QRCodeRequest_errors b = []"
    using assms by (cases "QRCodeRequest_errors b = []") (simp_all add: QRCodeRequest_validate_errors)
  from QRCodeRequest_validate_accepts [OF e] assms
  obtain d where d: "qr_data b = Some d"
    and r: "r = \<lparr>QRCodeRequest.data = d,
            QRCodeRequest.filename = field_default (unicode_of ''qrcode.png'') (qr_filename b),
            fill_color = field_default ''black'' (qr_fill_color b),
            back_color = field_default ''white'' (qr_back_color b),
            version = field_default 1 (qr_version b),
            box_size = field_default 10 (qr_box_size b),
            border = field_default 4 (qr_border b)\<rparr>"
    by auto
  from d r show "qr_data b = Some (QRCodeRequest.data r)" by simp
  from r show "QRCodeRequest.filename r = field_default (unicode_of ''qrcode.png'') (qr_filename b)" by simp
  from e have v: "check_ge ''version'' 1 (qr_version b) = []" "check_le ''version'' 40 (qr_version b) = []"
    "check_ge ''box_size'' 1 (qr_box_size b) = []" "check_ge ''border'' 0 (qr_border b) = []"
    by (simp_all add: QRCodeRequest_errors_def)
  from v(1) r show "1 \<le> version r"
    by (cases "qr_version b") (simp_all add: check_ge_def field_default_def split: if_splits)
  from v(2) r show "version r \<le> 40"
    by (cases "qr_version b") (simp_all add: check_le_def field_default_def split: if_splits)
  from v(3) r show "1 \<le> box_size r"
    by (cases "qr_box_size b") (simp_all add: check_ge_def field_default_def split: if_splits)
  from v(4) r show "0 \<le> border r"
    by (cases "qr_border b") (simp_all add: check_ge_def field_default_def split: if_splits)
qed


subsection \<open>Request validation of the QR endpoint\<close>

text \<open>
  C3, as stated, fails on the status: the request with \<^verbatim>\<open>version = 0\<close> is refused by the
  framework's validation of the request model, whose response has status 422, not 400, and
  names the field \<^verbatim>\<open>version\<close> with the bound it violates. No library call is made.
\<close>

theorem qr_version_zero_answered_422:
  "\<forall>lib http_str.
     post_generate_qr lib http_str
       \<lparr>qr_data = Some ''https://www.example.com'', qr_filename = None, qr_fill_color = None,
        qr_back_color = None, qr_version = Some 0, qr_box_size = None, qr_border = None\<rparr> =
     (\<lparr>status_code = HTTP_422_UNPROCESSABLE_ENTITY, media_type = ''application/json'',
       headers = [], body = Validation_errors [(''version'', Ge 1)]\<rparr>, [])
   \<and> status_code (fst (post_generate_qr lib http_str
       \<lparr>qr_data = Some ''https://www.example.com'', qr_filename = None, qr_fill_color = None,
        qr_back_color = None, qr_version = Some 0, qr_box_size = None, qr_border = None\<rparr>))
     \<noteq> HTTP_400_BAD_REQUEST"
  by (simp add: post_generate_qr_def post_def request_validation_error_response_def
      QRCodeRequest_validate_def QRCodeRequest_errors_def required_def check_ge_def check_le_def)

text \<open>
  C3, amended. A QR request that violates a declared constraint (\<^verbatim>\<open>data\<close> missing,
  \<^verbatim>\<open>version\<close> outside 1 to 40, \<^verbatim>\<open>box_size\<close> below 1, \<^verbatim>\<open>border\<close> below 0) is answered
  with status 422 and the list of validation errors, which names each offending field with
  the constraint it violates; the log of library calls is empty.
\<close>

theorem qr_constraint_violation_rejected:
  assumes "qr_data b = None
      \<or> (\<exists>v. qr_version b = Some v \<and> (v < 1 \<or> 40 < v))
      \<or> (\<exists>v. qr_box_size b = Some v \<and> v < 1)
      \<or> (\<exists>v. qr_border b = Some v \<and> v < 0)"
  shows "post_generate_qr lib http_str b =
      (\<lparr>status_code = HTTP_422_UNPROCESSABLE_ENTITY, media_type = ''application/json'',
        headers = [], body = Validation_errors (QRCodeRequest_errors b)\<rparr>, [])
    \<and> QRCodeRequest_errors b \<noteq> []
    \<and> (qr_data b = None \<longrightarrow> (''data'', Required) \<in> set (QRCodeRequest_errors b))
    \<and> (\<forall>v. qr_version b = Some v \<and> v < 1 \<longrightarrow>
          (''version'', Ge 1) \<in> set (QRCodeRequest_errors b))
    \<and> (\<forall>v. qr_version b = Some v \<and> 40 < v \<longrightarrow>
          (''version'', Le 40) \<in> set (QRCodeRequest_errors b))
    \<and> (\<forall>v. qr_box_size b = Some v \<and> v < 1 \<longrightarrow>
          (''box_size'', Ge 1) \<in> set (QRCodeRequest_errors b))
    \<and> (\<forall>v. qr_border b = Some v \<and> v < 0 \<longrightarrow>
          (''border'', Ge 0) \<in> set (QRCodeRequest_errors b))"
proof -
  have named:
    "qr_data b = None \<longrightarrow> (''data'', Required) \<in> set (QRCodeRequest_errors b)"
    "\<forall>v. qr_version b = Some v \<and> v < 1 \<longrightarrow> (''version'', Ge 1) \<in> set (QRCodeRequest_errors b)"
    "\<forall>v. qr_version b = Some v \<and> 40 < v \<longrightarrow> (''version'', Le 40) \<in> set (QRCodeRequest_errors b)"
    "\<forall>v. qr_box_size b = Some v \<and> v < 1 \<longrightarrow> (''box_size'', Ge 1) \<in> set (QRCodeRequest_errors b)"
    "\<forall>v. qr_border b = Some v \<and> v < 0 \<longrightarrow> (''border'', Ge 0) \<in> set (QRCodeRequest_errors b)"
    by (simp_all add: QRCodeRequest_errors_def required_def check_ge_def check_le_def)
  from assms named have ne: "QRCodeRequest_errors b \<noteq> []"
    by (metis empty_iff list.set(1))
  then have "QRCodeRequest_validate b = Inl (QRCodeRequest_errors b)"
    by (rule QRCodeRequest_validate_errors)
  then have "post_generate_qr lib http_str b =
      (\<lparr>status_code = HTTP_422_UNPROCESSABLE_ENTITY, media_type = ''application/json'',
        headers = [], body = Validation_errors (QRCodeRequest_errors b)\<rparr>, [])"
    by (rule post_qr_invalid)
  with ne named show ?thesis by blast
qed

theorem qr_constraint_violation_rejected_witness:
  "post_generate_qr (qrcode_documented example_qrcode) (\<lambda>code detail. detail)
     \<lparr>qr_data = None, qr_filename = None, qr_fill_color = None, qr_back_color = None,
      qr_version = Some 41, qr_box_size = Some 0, qr_border = Some (- 1)\<rparr> =
   (\<lparr>status_code = HTTP_422_UNPROCESSABLE_ENTITY, media_type = ''application/json'',
     headers = [],
     body = Validation_errors
       [(''data'', Required), (''version'', Le 40), (''box_size'', Ge 1), (''border'', Ge 0)]\<rparr>,
    [])"
  using qr_constraint_violation_rejected [of
      "\<lparr>qr_data = None, qr_filename = None, qr_fill_color = None, qr_back_color = None,
        qr_version = Some 41, qr_box_size = Some 0, qr_border = Some (- 1)\<rparr>"
      "qrcode_documented example_qrcode" "\<lambda>code detail. detail"]
  by (simp add: QRCodeRequest_errors_def required_def check_ge_def check_le_def)


lemma example_request_validates:
  "QRCodeRequest_validate
     \<lparr>qr_data = Some d, qr_filename = None, qr_fill_color = None, qr_back_color = None,
      qr_version = Some 1, qr_box_size = None, qr_border = None\<rparr> =
   Inr \<lparr>QRCodeRequest.data = d, QRCodeRequest.filename = unicode_of ''qrcode.png'',
        fill_color = ''black'', back_color = ''white'', version = 1, box_size = 10, border = 4\<rparr>"
  by (simp add: QRCodeRequest_validate_def QRCodeRequest_errors_def required_def check_ge_def
      check_le_def field_default_def)

subsection \<open>Faults of the QR encoder\<close>

text \<open>
  C5. A valid QR request on which any of the five library calls raises an exception \<open>e\<close>
  is answered with status 500 and the JSON detail ``Failed to generate QR Code: '' followed
  by \<^verbatim>\<open>str(e)\<close>.
\<close>

theorem qr_encoder_fault_answered_500:
  assumes "QRCodeRequest_validate b = Inr r"
    and "QRCode lib (version r) ERROR_CORRECT_H (box_size r) (border r) = Inl e
      \<or> (\<exists>q0. QRCode lib (version r) ERROR_CORRECT_H (box_size r) (border r) = Inr q0
      \<and> (add_data lib q0 (QRCodeRequest.data r) = Inl e
      \<or> (\<exists>q1. add_data lib q0 (QRCodeRequest.data r) = Inr q1
      \<and> (qr_make lib q1 True = Inl e
      \<or> (\<exists>q2. qr_make lib q1 True = Inr q2
      \<and> (make_image lib q2 (fill_color r) (back_color r) = Inl e
      \<or> (\<exists>img. make_image lib q2 (fill_color r) (back_color r) = Inr img
      \<and> save lib img ''PNG'' = Inl e)))))))"
  shows "fst (post_generate_qr lib http_str b) =
     \<lparr>status_code = HTTP_500_INTERNAL_SERVER_ERROR, media_type = ''application/json'',
      headers = [], body = Detail (''Failed to generate QR Code: '' @ str http_str e)\<rparr>"
proof -
  from assms(2) have "fst (qr_try_body lib (QRCodeRequest.data r) (fill_color r) (back_color r)
      (version r) (box_size r) (border r) []) = Inl e"
    by (auto simp: qr_try_body_calls)
  then obtain log where "qr_try_body lib (QRCodeRequest.data r) (fill_color r) (back_color r)
      (version r) (box_size r) (border r) [] = (Inl e, log)"
    by (metis prod.collapse)
  then show ?thesis
    by (simp add: post_qr_valid [OF assms(1)])
qed

theorem qr_encoder_fault_answered_500_witness:
  "QRCodeRequest_validate
     \<lparr>qr_data = Some ''https'', qr_filename = None, qr_fill_color = None, qr_back_color = None,
      qr_version = Some 1, qr_box_size = None, qr_border = None\<rparr> =
   Inr \<lparr>QRCodeRequest.data = ''https'', QRCodeRequest.filename = unicode_of ''qrcode.png'',
        fill_color = ''black'', back_color = ''white'', version = 1, box_size = 10, border = 4\<rparr>
   \<and> fst (post_generate_qr (qrcode_documented example_qrcode_faulty) (\<lambda>code detail. detail)
     \<lparr>qr_data = Some ''https'', qr_filename = None, qr_fill_color = None, qr_back_color = None,
      qr_version = Some 1, qr_box_size = None, qr_border = None\<rparr>) =
     \<lparr>status_code = HTTP_500_INTERNAL_SERVER_ERROR, media_type = ''application/json'',
      headers = [], body = Detail ''Failed to generate QR Code: unknown color specifier''\<rparr>"
proof -
  let ?lib = "qrcode_documented example_qrcode_faulty :: (QRCode_object, unit) qrcode_lib"
  let ?q0 = "\<lparr>obj_version = 1, obj_error_correction = ERROR_CORRECT_H, obj_box_size = 10,
    obj_border = 4, obj_data = []\<rparr>"
  have c: "QRCode ?lib 1 ERROR_CORRECT_H 10 4 = Inr ?q0"
    by (simp add: qrcode_documented_def)
  have a: "add_data ?lib ?q0 ''https'' = Inr (?q0\<lparr>obj_data := ''https''\<rparr>)"
    by (simp add: qrcode_documented_def)
  have f: "best_fit holds_bytes_H 1 ''https'' = Some 1"
    by (simp add: best_fit_def holds_bytes_H_def byte_capacity_H_def upto.simps)
  have m: "qr_make ?lib (?q0\<lparr>obj_data := ''https''\<rparr>) True = Inr (?q0\<lparr>obj_data := ''https''\<rparr>)"
    using f by (simp add: qrcode_documented_def example_qrcode_faulty_def example_qrcode_def)
  have i: "make_image ?lib (?q0\<lparr>obj_data := ''https''\<rparr>) ''black'' ''white''
      = Inl (Exception ''unknown color specifier'')"
    by (simp add: qrcode_documented_def example_qrcode_faulty_def example_qrcode_def)
  show ?thesis
    using c a m i qr_encoder_fault_answered_500 [where lib = ?lib
        and e = "Exception ''unknown color specifier''" and http_str = "\<lambda>code detail. detail",
        OF example_request_validates [of "''https''"]]
    by (simp add: example_request_validates str_def)
qed


subsection \<open>Capacity and the version of the request\<close>

lemma best_fit_None:
  "best_fit room start d = None \<longleftrightarrow> (\<forall>v. start \<le> v \<and> v \<le> 40 \<longrightarrow> \<not> room v d)"
  by (auto simp: best_fit_def find_None_iff)

lemma find_first:
  assumes "x \<in> set xs" and "P x" and "sorted xs" and "\<forall>y \<in> set xs. y < x \<longrightarrow> \<not> P y"
  shows "List.find P xs = Some x"
  using assms
proof (induction xs)
  case Nil
  then show ?case by simp
next
  case (Cons a xs)
  show ?case
  proof (cases "a = x")
    case True
    with Cons.prems(2) show ?thesis by simp
  next
    case False
    with Cons.prems have "x \<in> set xs" and "a < x"
      by auto
    with Cons.prems(4) have "\<not> P a" by simp
    moreover from Cons.prems Cons.IH \<open>x \<in> set xs\<close> have "List.find P xs = Some x"
      by simp
    ultimately show ?thesis by simp
  qed
qed

lemma best_fit_smallest:
  assumes "start \<le> v" and "v \<le> 40" and "room v d"
    and "\<forall>w. start \<le> w \<and> w < v \<longrightarrow> \<not> room w d"
  shows "best_fit room start d = Some v"
  unfolding best_fit_def
  using assms by (intro find_first) auto

lemma documented_run:
  assumes "1 \<le> v" "v \<le> 40" "1 \<le> bs" "0 \<le> bd"
  shows "qr_try_body (qrcode_documented p) d fc bc v bs bd [] =
     (case best_fit (holds p) v d of
        None \<Rightarrow>
          (Inl (overflow p), [Call_QRCode v ERROR_CORRECT_H bs bd, Call_add_data d, Call_make True])
      | Some v' \<Rightarrow>
     (case render p \<lparr>obj_version = v', obj_error_correction = ERROR_CORRECT_H,
                      obj_box_size = bs, obj_border = bd, obj_data = d\<rparr> fc bc of
        Inl e \<Rightarrow>
          (Inl e, [Call_QRCode v ERROR_CORRECT_H bs bd, Call_add_data d, Call_make True,
                   Call_make_image fc bc])
      | Inr img \<Rightarrow>
     (case encode_image p img ''PNG'' of
        Inl e \<Rightarrow>
          (Inl e, [Call_QRCode v ERROR_CORRECT_H bs bd, Call_add_data d, Call_make True,
                   Call_make_image fc bc, Call_save ''PNG''])
      | Inr written \<Rightarrow>
          (Inr \<lparr>buffer = written, pos = 0\<rparr>,
           [Call_QRCode v ERROR_CORRECT_H bs bd, Call_add_data d, Call_make True,
            Call_make_image fc bc, Call_save ''PNG'']))))"
  using assms
  by (simp add: qr_try_body_calls qrcode_documented_def split: option.splits sum.splits)

text \<open>
  C2, amended. The module calls \<^verbatim>\<open>make(fit=True)\<close>, so the version of the request is where
  the library's search for a version starts. When no version from the requested one up to 40
  holds the data, the library raises its overflow error at that call, no image is made, and
  the response has status 500 with the detail ``Failed to generate QR Code: '' followed by
  the error's text. When some version in that range holds the data, the symbol is made at
  the smallest such version \<open>v'\<close>: the image is rendered from the \<^verbatim>\<open>QRCode\<close> object at
  version \<open>v'\<close>, whatever the version of the request, and the helper returns what rendering
  and saving that object give.
\<close>

theorem qr_overflow_answered_500:
  assumes "QRCodeRequest_validate b = Inr r"
  shows "((\<forall>v. version r \<le> v \<and> v \<le> 40 \<longrightarrow> \<not> holds p v (QRCodeRequest.data r)) \<longrightarrow>
      post_generate_qr (qrcode_documented p) http_str b =
        (\<lparr>status_code = HTTP_500_INTERNAL_SERVER_ERROR, media_type = ''application/json'',
          headers = [],
          body = Detail (''Failed to generate QR Code: '' @ str http_str (overflow p))\<rparr>,
         [Call_QRCode (version r) ERROR_CORRECT_H (box_size r) (border r),
          Call_add_data (QRCodeRequest.data r), Call_make True]))
    \<and> (\<forall>v'. version r \<le> v' \<and> v' \<le> 40 \<and> holds p v' (QRCodeRequest.data r)
          \<and> (\<forall>v. version r \<le> v \<and> v < v' \<longrightarrow> \<not> holds p v (QRCodeRequest.data r)) \<longrightarrow>
      generate_qr_code_image_bytes (qrcode_documented p) http_str (QRCodeRequest.data r)
          (fill_color r) (back_color r) (version r) (box_size r) (border r) [] =
        (case render p \<lparr>obj_version = v', obj_error_correction = ERROR_CORRECT_H,
                         obj_box_size = box_size r, obj_border = border r,
                         obj_data = QRCodeRequest.data r\<rparr> (fill_color r) (back_color r) of
           Inl e \<Rightarrow>
             (Inl (HTTPException HTTP_500_INTERNAL_SERVER_ERROR
                     (''Failed to generate QR Code: '' @ str http_str e)),
              [Call_QRCode (version r) ERROR_CORRECT_H (box_size r) (border r),
               Call_add_data (QRCodeRequest.data r), Call_make True,
               Call_make_image (fill_color r) (back_color r)])
         | Inr img \<Rightarrow>
        (case encode_image p img ''PNG'' of
           Inl e \<Rightarrow>
             (Inl (HTTPException HTTP_500_INTERNAL_SERVER_ERROR
                     (''Failed to generate QR Code: '' @ str http_str e)),
              [Call_QRCode (version r) ERROR_CORRECT_H (box_size r) (border r),
               Call_add_data (QRCodeRequest.data r), Call_make True,
               Call_make_image (fill_color r) (back_color r), Call_save ''PNG''])
         | Inr written \<Rightarrow>
             (Inr \<lparr>buffer = written, pos = 0\<rparr>,
              [Call_QRCode (version r) ERROR_CORRECT_H (box_size r) (border r),
               Call_add_data (QRCodeRequest.data r), Call_make True,
               Call_make_image (fill_color r) (back_color r), Call_save ''PNG'']))))"
proof (intro conjI impI allI)
  assume "\<forall>v. version r \<le> v \<and> v \<le> 40 \<longrightarrow> \<not> holds p v (QRCodeRequest.data r)"
  then have "best_fit (holds p) (version r) (QRCodeRequest.data r) = None"
    by (simp add: best_fit_None)
  then show "post_generate_qr (qrcode_documented p) http_str b =
        (\<lparr>status_code = HTTP_500_INTERNAL_SERVER_ERROR, media_type = ''application/json'',
          headers = [],
          body = Detail (''Failed to generate QR Code: '' @ str http_str (overflow p))\<rparr>,
         [Call_QRCode (version r) ERROR_CORRECT_H (box_size r) (border r),
          Call_add_data (QRCodeRequest.data r), Call_make True])"
    using QRCodeRequest_validate_Inr(3-6) [OF assms]
    by (simp add: post_qr_valid [OF assms] documented_run)
next
  fix v'
  assume "version r \<le> v' \<and> v' \<le> 40 \<and> holds p v' (QRCodeRequest.data r)
      \<and> (\<forall>v. version r \<le> v \<and> v < v' \<longrightarrow> \<not> holds p v (QRCodeRequest.data r))"
  then have "best_fit (holds p) (version r) (QRCodeRequest.data r) = Some v'"
    by (simp add: best_fit_smallest)
  then show "generate_qr_code_image_bytes (qrcode_documented p) http_str (QRCodeRequest.data r)
          (fill_color r) (back_color r) (version r) (box_size r) (border r) [] =
        (case render p \<lparr>obj_version = v', obj_error_correction = ERROR_CORRECT_H,
                         obj_box_size = box_size r, obj_border = border r,
                         obj_data = QRCodeRequest.data r\<rparr> (fill_color r) (back_color r) of
           Inl e \<Rightarrow>
             (Inl (HTTPException HTTP_500_INTERNAL_SERVER_ERROR
                     (''Failed to generate QR Code: '' @ str http_str e)),
              [Call_QRCode (version r) ERROR_CORRECT_H (box_size r) (border r),
               Call_add_data (QRCodeRequest.data r), Call_make True,
               Call_make_image (fill_color r) (back_color r)])
         | Inr img \<Rightarrow>
        (case encode_image p img ''PNG'' of
           Inl e \<Rightarrow>
             (Inl (HTTPException HTTP_500_INTERNAL_SERVER_ERROR
                     (''Failed to generate QR Code: '' @ str http_str e)),
              [Call_QRCode (version r) ERROR_CORRECT_H (box_size r) (border r),
               Call_add_data (QRCodeRequest.data r), Call_make True,
               Call_make_image (fill_color r) (back_color r), Call_save ''PNG''])
         | Inr written \<Rightarrow>
             (Inr \<lparr>buffer = written, pos = 0\<rparr>,
              [Call_QRCode (version r) ERROR_CORRECT_H (box_size r) (border r),
               Call_add_data (QRCodeRequest.data r), Call_make True,
               Call_make_image (fill_color r) (back_color r), Call_save ''PNG''])))"
    using QRCodeRequest_validate_Inr(3-6) [OF assms]
    by (simp add: generate_qr_cases documented_run split: sum.splits)
qed

lemma capacity_at_most:
  assumes "1 \<le> v" "v \<le> 40"
  shows "byte_capacity_H ! nat (v - 1) \<le> 1273"
proof -
  have "\<forall>c \<in> set byte_capacity_H. c \<le> 1273"
    by (simp add: byte_capacity_H_def)
  moreover have "nat (v - 1) < length byte_capacity_H"
    using assms by (simp add: byte_capacity_H_def)
  ultimately show ?thesis
    using nth_mem by blast
qed

lemma example_data_fits_version_3:
  "holds_bytes_H 3 ''https://www.example.com''"
  "\<forall>v. 1 \<le> v \<and> v < 3 \<longrightarrow> \<not> holds_bytes_H v ''https://www.example.com''"
proof -
  show "holds_bytes_H 3 ''https://www.example.com''"
    by (simp add: holds_bytes_H_def byte_capacity_H_def)
  show "\<forall>v. 1 \<le> v \<and> v < 3 \<longrightarrow> \<not> holds_bytes_H v ''https://www.example.com''"
  proof (intro allI impI)
    fix v :: int
    assume "1 \<le> v \<and> v < 3"
    then have "v = 1 \<or> v = 2" by arith
    then show "\<not> holds_bytes_H v ''https://www.example.com''"
      by (auto simp: holds_bytes_H_def byte_capacity_H_def)
  qed
qed

theorem qr_overflow_answered_500_witness:
  "best_fit holds_bytes_H 1 (replicate 5000 CHR ''a'') = None
   \<and> post_generate_qr (qrcode_documented example_qrcode_versioned) (\<lambda>code detail. detail)
     \<lparr>qr_data = Some (replicate 5000 CHR ''a''), qr_filename = None, qr_fill_color = None,
      qr_back_color = None, qr_version = Some 1, qr_box_size = None, qr_border = None\<rparr> =
     (\<lparr>status_code = HTTP_500_INTERNAL_SERVER_ERROR, media_type = ''application/json'',
       headers = [], body = Detail ''Failed to generate QR Code: ''\<rparr>,
      [Call_QRCode 1 ERROR_CORRECT_H 10 4, Call_add_data (replicate 5000 CHR ''a''),
       Call_make True])
   \<and> best_fit holds_bytes_H 1 ''https://www.example.com'' = Some 3
   \<and> generate_qr_code_image_bytes (qrcode_documented example_qrcode_versioned)
       (\<lambda>code detail. detail) ''https://www.example.com'' ''black'' ''white'' 1 10 4 [] =
     (Inr \<lparr>buffer = png_signature @ [3], pos = 0\<rparr>,
      [Call_QRCode 1 ERROR_CORRECT_H 10 4, Call_add_data ''https://www.example.com'',
       Call_make True, Call_make_image ''black'' ''white'', Call_save ''PNG''])"
proof -
  have h: "\<forall>v. 1 \<le> v \<and> v \<le> 40 \<longrightarrow> \<not> holds_bytes_H v (replicate 5000 CHR ''a'')"
    using capacity_at_most by (fastforce simp: holds_bytes_H_def)
  then have n: "best_fit holds_bytes_H 1 (replicate 5000 CHR ''a'') = None"
    by (simp add: best_fit_None)
  have f: "best_fit holds_bytes_H 1 ''https://www.example.com'' = Some 3"
    using example_data_fits_version_3 by (simp add: best_fit_smallest)
  have over: "post_generate_qr (qrcode_documented example_qrcode_versioned)
      (\<lambda>code detail. detail)
     \<lparr>qr_data = Some (replicate 5000 CHR ''a''), qr_filename = None, qr_fill_color = None,
      qr_back_color = None, qr_version = Some 1, qr_box_size = None, qr_border = None\<rparr> =
     (\<lparr>status_code = HTTP_500_INTERNAL_SERVER_ERROR, media_type = ''application/json'',
       headers = [], body = Detail ''Failed to generate QR Code: ''\<rparr>,
      [Call_QRCode 1 ERROR_CORRECT_H 10 4, Call_add_data (replicate 5000 CHR ''a''),
       Call_make True])"
    using h qr_overflow_answered_500 [where p = example_qrcode_versioned
        and http_str = "\<lambda>code detail. detail",
        OF example_request_validates [of "replicate 5000 CHR ''a''"]]
    by (simp add: example_qrcode_versioned_def str_def)
  have fits: "generate_qr_code_image_bytes (qrcode_documented example_qrcode_versioned)
       (\<lambda>code detail. detail) ''https://www.example.com'' ''black'' ''white'' 1 10 4 [] =
     (Inr \<lparr>buffer = png_signature @ [3], pos = 0\<rparr>,
      [Call_QRCode 1 ERROR_CORRECT_H 10 4, Call_add_data ''https://www.example.com'',
       Call_make True, Call_make_image ''black'' ''white'', Call_save ''PNG''])"
    using example_data_fits_version_3
      qr_overflow_answered_500 [where p = example_qrcode_versioned
        and http_str = "\<lambda>code detail. detail",
        OF example_request_validates [of "''https://www.example.com''"],
        THEN conjunct2, THEN spec, of 3]
    by (simp add: example_qrcode_versioned_def)
  from n over f fits show ?thesis by simp
qed

text \<open>
  C2, as stated, fails: the module's own example data, 23 characters, exceeds the 7 bytes a
  symbol of version 1 holds at error correction H, and the request with \<^verbatim>\<open>version = 1\<close> is
  answered with status 200. Fitting moves on to version 3, the smallest that holds it (24
  bytes): the image in the body is the one made at version 3.
\<close>

theorem qr_version_is_where_fitting_starts:
  "\<not> holds_bytes_H 1 ''https://www.example.com''
   \<and> best_fit holds_bytes_H 1 ''https://www.example.com'' = Some 3
   \<and> post_generate_qr (qrcode_documented example_qrcode_versioned) (\<lambda>code detail. detail)
     \<lparr>qr_data = Some ''https://www.example.com'', qr_filename = None, qr_fill_color = None,
      qr_back_color = None, qr_version = Some 1, qr_box_size = None, qr_border = None\<rparr> =
     (\<lparr>status_code = HTTP_200_OK, media_type = ''image/png'',
       headers = [content_disposition (unicode_of ''qrcode.png'')],
       body = Image (png_signature @ [3])\<rparr>,
      [Call_QRCode 1 ERROR_CORRECT_H 10 4, Call_add_data ''https://www.example.com'',
       Call_make True, Call_make_image ''black'' ''white'', Call_save ''PNG''])"
proof -
  have n: "\<not> holds_bytes_H 1 ''https://www.example.com''"
    by (simp add: holds_bytes_H_def byte_capacity_H_def)
  have f: "best_fit holds_bytes_H 1 ''https://www.example.com'' = Some 3"
    using example_data_fits_version_3 by (simp add: best_fit_smallest)
  have "qr_try_body (qrcode_documented example_qrcode_versioned) ''https://www.example.com''
      ''black'' ''white'' 1 10 4 [] =
    (Inr \<lparr>buffer = png_signature @ [3], pos = 0\<rparr>,
     [Call_QRCode 1 ERROR_CORRECT_H 10 4, Call_add_data ''https://www.example.com'',
      Call_make True, Call_make_image ''black'' ''white'', Call_save ''PNG''])"
    using f by (simp add: documented_run example_qrcode_versioned_def)
  then show ?thesis
    using n f
    by (simp add: post_qr_valid [OF example_request_validates] StreamingResponse_rewound
        latin1_encodable_unicode_of)
qed

subsection \<open>Empty data\<close>

text \<open>
  C6, as stated, fails: \<^verbatim>\<open>data\<close> is declared \<^verbatim>\<open>str = Field(...)\<close>, required and with no
  minimum length. The request whose data is the empty string validates, all five library
  calls are made, \<^verbatim>\<open>add_data\<close> with the empty string, and with a library that does not fault
  the response has status 200.
\<close>

theorem empty_qr_data_reaches_encoder:
  "QRCodeRequest_validate
     \<lparr>qr_data = Some [], qr_filename = None, qr_fill_color = None, qr_back_color = None,
      qr_version = Some 1, qr_box_size = None, qr_border = None\<rparr> =
   Inr \<lparr>QRCodeRequest.data = [], QRCodeRequest.filename = unicode_of ''qrcode.png'',
        fill_color = ''black'', back_color = ''white'', version = 1, box_size = 10, border = 4\<rparr>
   \<and> post_generate_qr (qrcode_documented example_qrcode) (\<lambda>code detail. detail)
     \<lparr>qr_data = Some [], qr_filename = None, qr_fill_color = None, qr_back_color = None,
      qr_version = Some 1, qr_box_size = None, qr_border = None\<rparr> =
     (\<lparr>status_code = HTTP_200_OK, media_type = ''image/png'',
       headers = [content_disposition (unicode_of ''qrcode.png'')],
       body = Image png_signature\<rparr>,
      [Call_QRCode 1 ERROR_CORRECT_H 10 4, Call_add_data [], Call_make True,
       Call_make_image ''black'' ''white'', Call_save ''PNG''])"
proof -
  have f: "best_fit holds_bytes_H 1 [] = Some 1"
    by (simp add: best_fit_def holds_bytes_H_def byte_capacity_H_def upto.simps)
  have "qr_try_body (qrcode_documented example_qrcode) [] ''black'' ''white'' 1 10 4 [] =
    (Inr \<lparr>buffer = png_signature, pos = 0\<rparr>,
     [Call_QRCode 1 ERROR_CORRECT_H 10 4, Call_add_data [], Call_make True,
      Call_make_image ''black'' ''white'', Call_save ''PNG''])"
    using f by (simp add: documented_run example_qrcode_def)
  then show ?thesis
    by (simp add: post_qr_valid [OF example_request_validates] example_request_validates
        StreamingResponse_rewound latin1_encodable_unicode_of)
qed

text \<open>
  C6, amended. A QR request whose data is the empty string, its numeric fields absent or
  within their bounds, is not rejected: it validates with the empty data, the \<^verbatim>\<open>QRCode\<close>
  constructor is called, and when that returns, \<^verbatim>\<open>add_data\<close> is called with the empty string.
\<close>

theorem empty_qr_data_accepted:
  assumes "qr_data b = Some []"
    and "\<forall>v. qr_version b = Some v \<longrightarrow> 1 \<le> v \<and> v \<le> 40"
    and "\<forall>v. qr_box_size b = Some v \<longrightarrow> 1 \<le> v"
    and "\<forall>v. qr_border b = Some v \<longrightarrow> 0 \<le> v"
  shows "\<exists>r. QRCodeRequest_validate b = Inr r \<and> QRCodeRequest.data r = []
     \<and> take 1 (snd (post_generate_qr lib http_str b)) =
         [Call_QRCode (version r) ERROR_CORRECT_H (box_size r) (border r)]
     \<and> (\<forall>q. QRCode lib (version r) ERROR_CORRECT_H (box_size r) (border r) = Inr q \<longrightarrow>
          take 2 (snd (post_generate_qr lib http_str b)) =
            [Call_QRCode (version r) ERROR_CORRECT_H (box_size r) (border r), Call_add_data []])"
proof -
  have "QRCodeRequest_errors b = []"
    using assms
    by (simp add: QRCodeRequest_errors_def required_def check_ge_def check_le_def
        split: option.splits)
  from QRCodeRequest_validate_accepts [OF this] assms(1)
  obtain r where v: "QRCodeRequest_validate b = Inr r" and d: "QRCodeRequest.data r = []"
    by auto
  have l: "snd (post_generate_qr lib http_str b) =
      snd (qr_try_body lib [] (fill_color r) (back_color r) (version r) (box_size r) (border r) [])"
    using d by (simp add: post_qr_valid [OF v] split: prod.splits sum.splits)
  have "take 1 (snd (post_generate_qr lib http_str b)) =
      [Call_QRCode (version r) ERROR_CORRECT_H (box_size r) (border r)]"
    unfolding l by (simp add: qr_try_body_calls split: sum.splits)
  moreover have "\<forall>q. QRCode lib (version r) ERROR_CORRECT_H (box_size r) (border r) = Inr q \<longrightarrow>
      take 2 (snd (post_generate_qr lib http_str b)) =
        [Call_QRCode (version r) ERROR_CORRECT_H (box_size r) (border r), Call_add_data []]"
    unfolding l by (simp add: qr_try_body_calls split: sum.splits)
  ultimately show ?thesis
    using v d by blast
qed

theorem empty_qr_data_accepted_witness:
  "take 2 (snd (post_generate_qr (qrcode_documented example_qrcode) (\<lambda>code detail. detail)
     \<lparr>qr_data = Some [], qr_filename = None, qr_fill_color = None, qr_back_color = None,
      qr_version = Some 40, qr_box_size = Some 1, qr_border = Some 0\<rparr>)) =
   [Call_QRCode 40 ERROR_CORRECT_H 1 0, Call_add_data []]"
proof -
  have v: "QRCodeRequest_validate
     \<lparr>qr_data = Some [], qr_filename = None, qr_fill_color = None, qr_back_color = None,
      qr_version = Some 40, qr_box_size = Some 1, qr_border = Some 0\<rparr> =
    Inr \<lparr>QRCodeRequest.data = [], QRCodeRequest.filename = unicode_of ''qrcode.png'',
        fill_color = ''black'', back_color = ''white'', version = 40, box_size = 1, border = 0\<rparr>"
    by (simp add: QRCodeRequest_validate_def QRCodeRequest_errors_def required_def check_ge_def
        check_le_def field_default_def)
  have c: "QRCode (qrcode_documented example_qrcode) 40 ERROR_CORRECT_H 1 0 =
      Inr \<lparr>obj_version = 40, obj_error_correction = ERROR_CORRECT_H, obj_box_size = 1,
           obj_border = 0, obj_data = []\<rparr>"
    by (simp add: qrcode_documented_def)
  show ?thesis
    using c empty_qr_data_accepted [of
        "\<lparr>qr_data = Some [], qr_filename = None, qr_fill_color = None, qr_back_color = None,
          qr_version = Some 40, qr_box_size = Some 1, qr_border = Some 0\<rparr>"
        "qrcode_documented example_qrcode" "\<lambda>code detail. detail"]
    by (auto simp: v)
qed


subsection \<open>The responses of the two endpoints\<close>

lemma qr_try_body_Inr:
  assumes "qr_try_body lib d fc bc v bs bd log = (Inr buf, l)"
  shows "\<exists>q0 q1 q2 img written.
     QRCode lib v ERROR_CORRECT_H bs bd = Inr q0 \<and> add_data lib q0 d = Inr q1
     \<and> qr_make lib q1 True = Inr q2 \<and> make_image lib q2 fc bc = Inr img
     \<and> save lib img ''PNG'' = Inr written \<and> buf = \<lparr>buffer = written, pos = 0\<rparr>"
  using assms by (auto simp: qr_try_body_calls split: sum.splits)

lemma barcode_try_body_Inr:
  assumes "barcode_try_body lib t d opts log = (Inr buf, l)"
  shows "\<exists>cls inst written.
     t \<in> set supported_barcode_types \<and> barcode_get lib t = Inr cls
     \<and> barcode_class lib cls d = Inr inst \<and> barcode_write lib inst opts = Inr written
     \<and> buf = \<lparr>buffer = written, pos = 0\<rparr>"
proof (cases "t \<in> set supported_barcode_types")
  case True
  with assms show ?thesis
    by (auto simp: barcode_try_body_supported split: sum.splits)
next
  case False
  with assms show ?thesis
    by (simp add: barcode_unsupported_body)
qed

lemma generate_barcode_Inl:
  assumes "generate_barcode_image_bytes lib hs t d opts log = (Inl e, l)"
  shows "\<exists>detail. e = HTTPException HTTP_400_BAD_REQUEST detail
                 \<or> e = HTTPException HTTP_500_INTERNAL_SERVER_ERROR detail"
  using assms
  by (auto simp: generate_barcode_image_bytes_def try_except_def barcode_except_def raise_def
      split: prod.splits sum.splits exn.splits)

lemma generate_barcode_Inr:
  assumes "generate_barcode_image_bytes lib hs t d opts log = (Inr buf, l)"
  shows "barcode_try_body lib t d opts log = (Inr buf, l)"
  using assms
  by (auto simp: generate_barcode_image_bytes_def try_except_def barcode_except_def raise_def
      split: prod.splits sum.splits exn.splits)

lemma post_barcode_invalid:
  "bc_barcode_type b = None \<or> bc_data b = None \<Longrightarrow>
   post_generate_barcode lib hs b =
     (\<lparr>status_code = HTTP_422_UNPROCESSABLE_ENTITY, media_type = ''application/json'',
       headers = [], body = Validation_errors (BarcodeRequest_errors b)\<rparr>, [])"
  by (auto simp: post_generate_barcode_def post_def BarcodeRequest_validate_def
      request_validation_error_response_def split: option.splits)

text \<open>
  Every outcome of a QR request: the image, the helper's 500, the validation error, or,
  when the file name has no latin-1 encoding, the plain-text 500 that follows the
  exception of the response constructor.
\<close>

lemma post_qr_outcomes:
  "(\<exists>r q0 q1 q2 img written.
      QRCodeRequest_validate b = Inr r
      \<and> QRCode lib (version r) ERROR_CORRECT_H (box_size r) (border r) = Inr q0
      \<and> add_data lib q0 (QRCodeRequest.data r) = Inr q1
      \<and> qr_make lib q1 True = Inr q2
      \<and> make_image lib q2 (fill_color r) (back_color r) = Inr img
      \<and> save lib img ''PNG'' = Inr written
      \<and> fst (post_generate_qr lib hs b) =
          \<lparr>status_code = HTTP_200_OK, media_type = ''image/png'',
           headers = [content_disposition (QRCodeRequest.filename r)],
           body = Image written\<rparr>)
   \<or> (\<exists>detail. fst (post_generate_qr lib hs b) =
          \<lparr>status_code = HTTP_500_INTERNAL_SERVER_ERROR, media_type = ''application/json'',
           headers = [], body = Detail detail\<rparr>)
   \<or> (\<exists>errors. fst (post_generate_qr lib hs b) =
          \<lparr>status_code = HTTP_422_UNPROCESSABLE_ENTITY, media_type = ''application/json'',
           headers = [], body = Validation_errors errors\<rparr>)
   \<or> (fst (post_generate_qr lib hs b) =
          \<lparr>status_code = HTTP_500_INTERNAL_SERVER_ERROR, media_type = ''text/plain'',
           headers = [], body = Plain_text ''Internal Server Error''\<rparr>
       \<and> \<not> latin1_encodable (field_default (unicode_of ''qrcode.png'') (qr_filename b)))"
proof (cases "QRCodeRequest_validate b")
  case (Inl errors)
  then show ?thesis by (simp add: post_qr_invalid)
next
  case (Inr r)
  obtain res l where t: "qr_try_body lib (QRCodeRequest.data r) (fill_color r) (back_color r)
      (version r) (box_size r) (border r) [] = (res, l)"
    by (cases "qr_try_body lib (QRCodeRequest.data r) (fill_color r) (back_color r)
      (version r) (box_size r) (border r) []")
  show ?thesis
  proof (cases res)
    case (Inl e)
    with t show ?thesis by (simp add: post_qr_valid [OF Inr])
  next
    case buf: (Inr buf)
    with t qr_try_body_Inr obtain q0 q1 q2 img written where
      chain: "QRCode lib (version r) ERROR_CORRECT_H (box_size r) (border r) = Inr q0"
        "add_data lib q0 (QRCodeRequest.data r) = Inr q1" "qr_make lib q1 True = Inr q2"
        "make_image lib q2 (fill_color r) (back_color r) = Inr img"
        "save lib img ''PNG'' = Inr written"
      and w: "buf = \<lparr>buffer = written, pos = 0\<rparr>"
      by blast
    show ?thesis
    proof (cases "latin1_encodable (QRCodeRequest.filename r)")
      case True
      with t buf w have "fst (post_generate_qr lib hs b) =
          \<lparr>status_code = HTTP_200_OK, media_type = ''image/png'',
           headers = [content_disposition (QRCodeRequest.filename r)],
           body = Image written\<rparr>"
        by (simp add: post_qr_valid [OF Inr] StreamingResponse_rewound)
      with Inr chain show ?thesis by blast
    next
      case False
      with t buf w have "fst (post_generate_qr lib hs b) =
          \<lparr>status_code = HTTP_500_INTERNAL_SERVER_ERROR, media_type = ''text/plain'',
           headers = [], body = Plain_text ''Internal Server Error''\<rparr>"
        by (simp add: post_qr_valid [OF Inr] StreamingResponse_rewound exception_response_def)
      with False show ?thesis
        by (simp add: QRCodeRequest_validate_Inr(2) [OF Inr])
    qed
  qed
qed

lemma post_barcode_outcomes:
  "(\<exists>t d cls inst written.
      bc_barcode_type b = Some t \<and> bc_data b = Some d \<and> t \<in> set supported_barcode_types
      \<and> barcode_get lib t = Inr cls \<and> barcode_class lib cls d = Inr inst
      \<and> barcode_write lib inst (field_default [] (bc_options b)) = Inr written
      \<and> fst (post_generate_barcode lib hs b) =
          \<lparr>status_code = HTTP_200_OK, media_type = ''image/png'',
           headers = [content_disposition
                        (field_default (unicode_of ''barcode.png'') (bc_filename b))],
           body = Image written\<rparr>)
   \<or> (\<exists>detail. fst (post_generate_barcode lib hs b) =
          \<lparr>status_code = HTTP_400_BAD_REQUEST, media_type = ''application/json'',
           headers = [], body = Detail detail\<rparr>)
   \<or> (\<exists>detail. fst (post_generate_barcode lib hs b) =
          \<lparr>status_code = HTTP_500_INTERNAL_SERVER_ERROR, media_type = ''application/json'',
           headers = [], body = Detail detail\<rparr>)
   \<or> (\<exists>errors. fst (post_generate_barcode lib hs b) =
          \<lparr>status_code = HTTP_422_UNPROCESSABLE_ENTITY, media_type = ''application/json'',
           headers = [], body = Validation_errors errors\<rparr>)
   \<or> (fst (post_generate_barcode lib hs b) =
          \<lparr>status_code = HTTP_500_INTERNAL_SERVER_ERROR, media_type = ''text/plain'',
           headers = [], body = Plain_text ''Internal Server Error''\<rparr>
       \<and> \<not> latin1_encodable (field_default (unicode_of ''barcode.png'') (bc_filename b)))"
proof (cases "bc_barcode_type b = None \<or> bc_data b = None")
  case True
  then show ?thesis by (simp add: post_barcode_invalid)
next
  case False
  then obtain t d where td: "bc_barcode_type b = Some t" "bc_data b = Some d"
    by auto
  obtain res l where g: "generate_barcode_image_bytes lib hs t d
      (field_default [] (bc_options b)) [] = (res, l)"
    by (cases "generate_barcode_image_bytes lib hs t d (field_default [] (bc_options b)) []")
  show ?thesis
  proof (cases res)
    case (Inl e)
    with g generate_barcode_Inl obtain detail where
      "e = HTTPException HTTP_400_BAD_REQUEST detail
       \<or> e = HTTPException HTTP_500_INTERNAL_SERVER_ERROR detail"
      by blast
    with g Inl show ?thesis
      by (auto simp: post_barcode_valid [OF td] exception_response_def)
  next
    case buf: (Inr buf)
    with g have "barcode_try_body lib t d (field_default [] (bc_options b)) [] = (Inr buf, l)"
      by (simp add: generate_barcode_Inr)
    with barcode_try_body_Inr obtain cls inst written where
      chain: "t \<in> set supported_barcode_types" "barcode_get lib t = Inr cls"
        "barcode_class lib cls d = Inr inst"
        "barcode_write lib inst (field_default [] (bc_options b)) = Inr written"
      and w: "buf = \<lparr>buffer = written, pos = 0\<rparr>"
      by blast
    show ?thesis
    proof (cases "latin1_encodable (field_default (unicode_of ''barcode.png'') (bc_filename b))")
      case True
      with g buf w have "fst (post_generate_barcode lib hs b) =
          \<lparr>status_code = HTTP_200_OK, media_type = ''image/png'',
           headers = [content_disposition
                        (field_default (unicode_of ''barcode.png'') (bc_filename b))],
           body = Image written\<rparr>"
        by (simp add: post_barcode_valid [OF td] StreamingResponse_rewound)
      with td chain show ?thesis by blast
    next
      case False
      with g buf w have "fst (post_generate_barcode lib hs b) =
          \<lparr>status_code = HTTP_500_INTERNAL_SERVER_ERROR, media_type = ''text/plain'',
           headers = [], body = Plain_text ''Internal Server Error''\<rparr>"
        by (simp add: post_barcode_valid [OF td] StreamingResponse_rewound
            exception_response_def)
      with False show ?thesis by simp
    qed
  qed
qed

lemma filename_request_validates:
  "QRCodeRequest_validate
     \<lparr>qr_data = Some ''https'', qr_filename = Some name, qr_fill_color = None,
      qr_back_color = None, qr_version = Some 1, qr_box_size = None, qr_border = None\<rparr> =
   Inr \<lparr>QRCodeRequest.data = ''https'', QRCodeRequest.filename = name,
        fill_color = ''black'', back_color = ''white'', version = 1, box_size = 10, border = 4\<rparr>"
  by (simp add: QRCodeRequest_validate_def QRCodeRequest_errors_def required_def check_ge_def
      check_le_def field_default_def)

lemma filename_request_generates:
  "qr_try_body (qrcode_documented example_qrcode) ''https'' ''black'' ''white'' 1 10 4 [] =
     (Inr \<lparr>buffer = png_signature, pos = 0\<rparr>,
      [Call_QRCode 1 ERROR_CORRECT_H 10 4, Call_add_data ''https'', Call_make True,
       Call_make_image ''black'' ''white'', Call_save ''PNG''])"
proof -
  have "best_fit holds_bytes_H 1 ''https'' = Some 1"
    by (simp add: best_fit_def holds_bytes_H_def byte_capacity_H_def upto.simps)
  then show ?thesis
    by (simp add: documented_run example_qrcode_def)
qed

lemma example_barcode_generates:
  "generate_barcode_image_bytes example_barcode hs ''ean13'' ''123456789012'' [] [] =
     (Inr \<lparr>buffer = png_signature, pos = 0\<rparr>,
      [Call_barcode_get ''ean13'', Call_barcode_class ''123456789012'', Call_barcode_write []])"
proof -
  have "''ean13'' \<in> set supported_barcode_types"
    by (simp add: supported_barcode_types_def)
  then show ?thesis
    by (simp add: generate_barcode_image_bytes_def try_except_def barcode_try_body_supported
        example_barcode_def)
qed




text \<open>
  C7. A response with status 200, of either endpoint, has exactly one header given by the
  module, \<^verbatim>\<open>Content-Disposition\<close>, whose value is \<^verbatim>\<open>inline; filename="\<close>, the file name of the
  request as it was sent and a closing quote; the file name is "qrcode.png" (QR) or
  "barcode.png" (barcode) when the request omits it.
\<close>

theorem content_disposition_is_filename:
  "(status_code (fst (post_generate_qr qr_lib http_str qb)) = HTTP_200_OK \<longrightarrow>
      headers (fst (post_generate_qr qr_lib http_str qb)) =
        [(''Content-Disposition'', unicode_of (''inline; filename='' @ dquote)
            @ (case qr_filename qb of None \<Rightarrow> unicode_of ''qrcode.png'' | Some f \<Rightarrow> f)
            @ unicode_of dquote)])
   \<and> (status_code (fst (post_generate_barcode bc_lib http_str bb)) = HTTP_200_OK \<longrightarrow>
      headers (fst (post_generate_barcode bc_lib http_str bb)) =
        [(''Content-Disposition'', unicode_of (''inline; filename='' @ dquote)
            @ (case bc_filename bb of None \<Rightarrow> unicode_of ''barcode.png'' | Some f \<Rightarrow> f)
            @ unicode_of dquote)])"
proof (intro conjI impI)
  assume "status_code (fst (post_generate_qr qr_lib http_str qb)) = HTTP_200_OK"
  with post_qr_outcomes [of qb qr_lib http_str]
  obtain r where "QRCodeRequest_validate qb = Inr r"
    and "headers (fst (post_generate_qr qr_lib http_str qb)) =
      [content_disposition (QRCodeRequest.filename r)]"
    by auto
  then show "headers (fst (post_generate_qr qr_lib http_str qb)) =
        [(''Content-Disposition'', unicode_of (''inline; filename='' @ dquote)
            @ (case qr_filename qb of None \<Rightarrow> unicode_of ''qrcode.png'' | Some f \<Rightarrow> f)
            @ unicode_of dquote)]"
    by (simp add: QRCodeRequest_validate_Inr(2) content_disposition_def field_default_def)
next
  assume "status_code (fst (post_generate_barcode bc_lib http_str bb)) = HTTP_200_OK"
  with post_barcode_outcomes [of bb bc_lib http_str]
  show "headers (fst (post_generate_barcode bc_lib http_str bb)) =
        [(''Content-Disposition'', unicode_of (''inline; filename='' @ dquote)
            @ (case bc_filename bb of None \<Rightarrow> unicode_of ''barcode.png'' | Some f \<Rightarrow> f)
            @ unicode_of dquote)]"
    by (auto simp: content_disposition_def field_default_def)
qed

theorem content_disposition_is_filename_witness:
  "status_code (fst (post_generate_qr (qrcode_documented example_qrcode) (\<lambda>code detail. detail)
      \<lparr>qr_data = Some ''https'', qr_filename = Some (unicode_of (''a'' @ dquote @ ''b; ../c.png'')),
       qr_fill_color = None, qr_back_color = None, qr_version = Some 1, qr_box_size = None,
       qr_border = None\<rparr>)) = HTTP_200_OK
   \<and> headers (fst (post_generate_qr (qrcode_documented example_qrcode) (\<lambda>code detail. detail)
      \<lparr>qr_data = Some ''https'', qr_filename = Some (unicode_of (''a'' @ dquote @ ''b; ../c.png'')),
       qr_fill_color = None, qr_back_color = None, qr_version = Some 1, qr_box_size = None,
       qr_border = None\<rparr>)) =
     [(''Content-Disposition'',
       unicode_of (''inline; filename='' @ dquote)
       @ unicode_of (''a'' @ dquote @ ''b; ../c.png'') @ unicode_of dquote)]
   \<and> status_code (fst (post_generate_barcode example_barcode (\<lambda>code detail. detail)
      \<lparr>bc_barcode_type = Some ''ean13'', bc_data = Some ''123456789012'',
       bc_filename = None, bc_options = None\<rparr>)) = HTTP_200_OK
   \<and> headers (fst (post_generate_barcode example_barcode (\<lambda>code detail. detail)
      \<lparr>bc_barcode_type = Some ''ean13'', bc_data = Some ''123456789012'',
       bc_filename = None, bc_options = None\<rparr>)) =
     [(''Content-Disposition'',
       unicode_of (''inline; filename='' @ dquote) @ unicode_of ''barcode.png''
       @ unicode_of dquote)]"
proof -
  let ?name = "unicode_of (''a'' @ dquote @ ''b; ../c.png'')"
  let ?qb = "\<lparr>qr_data = Some ''https'', qr_filename = Some ?name,
       qr_fill_color = None, qr_back_color = None, qr_version = Some 1, qr_box_size = None,
       qr_border = None\<rparr>"
  let ?bb = "\<lparr>bc_barcode_type = Some ''ean13'', bc_data = Some ''123456789012'',
       bc_filename = None, bc_options = None\<rparr>"
  have "status_code (fst (post_generate_qr (qrcode_documented example_qrcode)
      (\<lambda>code detail. detail)
      \<lparr>qr_data = Some ''https'', qr_filename = Some name,
       qr_fill_color = None, qr_back_color = None, qr_version = Some 1, qr_box_size = None,
       qr_border = None\<rparr>)) = HTTP_200_OK" if "latin1_encodable name" for name
    using that
    by (simp add: post_qr_valid [OF filename_request_validates] filename_request_generates
        StreamingResponse_rewound)
  then have q: "status_code (fst (post_generate_qr (qrcode_documented example_qrcode)
      (\<lambda>code detail. detail) ?qb)) = HTTP_200_OK"
    using latin1_encodable_unicode_of .
  have b: "status_code (fst (post_generate_barcode example_barcode
      (\<lambda>code detail. detail) ?bb)) = HTTP_200_OK"
    by (simp add: post_barcode_valid example_barcode_generates StreamingResponse_rewound
        latin1_encodable_unicode_of field_default_def)
  from content_disposition_is_filename [of "qrcode_documented example_qrcode"
      "\<lambda>code detail. detail" ?qb example_barcode ?bb] q b
  show ?thesis
    by simp
qed

end
